theory Spec2Isabelle

  imports Main "HOL-Library.Sublist"

begin

section \<open>Values and errors\<close>

text \<open>
  The model follows \<^verbatim>\<open>openedx/core/djangoapps/user_api/views.py\<close>. Python exceptions that
  leave a view are values of \<open>error\<close>; a view returns \<open>error + http_response\<close>.
  Translation (\<^verbatim>\<open>ugettext\<close>) is taken in the source language, so a translated literal is
  the literal itself.
\<close>

datatype error =
    ImproperlyConfigured string
  | KeyError string
  | AttributeError string
  | AssertionError
  | UnicodeEncodeError

text \<open>JSON scalars that occur as default values, placeholders and provider data.\<close>

datatype jvalue = JNull | JBool bool | JStr string

text \<open>Python truthiness of such a value (\<^verbatim>\<open>if v:\<close>).\<close>

fun truthy :: "jvalue \<Rightarrow> bool" where
  "truthy JNull = False"
| "truthy (JBool b) = b"
| "truthy (JStr s) = (s \<noteq> [])"

text \<open>\<^verbatim>\<open>str.lower()\<close> and \<^verbatim>\<open>str.upper()\<close> on the ASCII letters; other characters are kept.\<close>

definition ascii_uppercase :: string where
  "ascii_uppercase = ''ABCDEFGHIJKLMNOPQRSTUVWXYZ''"

definition ascii_lowercase :: string where
  "ascii_lowercase = ''abcdefghijklmnopqrstuvwxyz''"

definition lower_char :: "char \<Rightarrow> char" where
  "lower_char c =
     (case map_of (zip ascii_uppercase ascii_lowercase) c of Some d \<Rightarrow> d | None \<Rightarrow> c)"

definition upper_char :: "char \<Rightarrow> char" where
  "upper_char c =
     (case map_of (zip ascii_lowercase ascii_uppercase) c of Some d \<Rightarrow> d | None \<Rightarrow> c)"

definition lower :: "string \<Rightarrow> string" where
  "lower s = map lower_char s"

definition upper :: "string \<Rightarrow> string" where
  "upper s = map upper_char s"

text \<open>
  \<^verbatim>\<open>dict.get(key, default)\<close>, \<^verbatim>\<open>unicode(n)\<close> for a natural number, and
  \<^verbatim>\<open>template.format(key=val)\<close> for a template whose only replacement field is
  \<^verbatim>\<open>{key}\<close>; a missing value is formatted as Python prints \<^verbatim>\<open>None\<close>.
\<close>

definition dict_get :: "('k \<rightharpoonup> 'v) \<Rightarrow> 'k \<Rightarrow> 'v \<Rightarrow> 'v" where
  "dict_get d k dflt = (case d k of None \<Rightarrow> dflt | Some v \<Rightarrow> v)"

fun unicode_of_nat :: "nat \<Rightarrow> string" where
  "unicode_of_nat n =
     (if n < 10 then [''0123456789'' ! n]
      else unicode_of_nat (n div 10) @ [''0123456789'' ! (n mod 10)])"

fun format_field :: "string \<Rightarrow> string \<Rightarrow> string \<Rightarrow> string" where
  "format_field key val [] = []"
| "format_field key val (c # cs) =
     (if prefix (''{'' @ key @ ''}'') (c # cs)
      then val @ format_field key val (drop (length key + 1) cs)
      else c # format_field key val cs)"

definition py_str :: "string option \<Rightarrow> string" where
  "py_str v = (case v of None \<Rightarrow> ''None'' | Some s \<Rightarrow> s)"

section \<open>FormDescription\<close>

text \<open>
  One entry of the form description: the JSON object of a field. \<open>field_type\<close> is the
  JSON key \<^verbatim>\<open>type\<close>.
\<close>

record field_dict =
  name :: string
  label :: string
  field_type :: string
  defaultValue :: jvalue
  placeholder :: jvalue
  instructions :: string
  required :: bool
  restrictions :: "(string \<times> nat) list"
  options :: "(string \<times> string) list option"
  include_default_option :: bool
  errorMessages :: "(string \<times> string) list"
  supplementalLink :: string
  supplementalText :: string

text \<open>
  The properties recorded for one field name in \<^verbatim>\<open>form_desc._field_overrides\<close>, keyed as
  in the JSON (\<^verbatim>\<open>views.py\<close> reads \<^verbatim>\<open>_field_overrides.get('country', {}).get('defaultValue')\<close>).
  \<open>None\<close> is a property that was never overridden. Only the properties that
  \<^verbatim>\<open>views.py\<close> overrides are kept.
\<close>

record override_dict =
  ov_label :: "string option"
  ov_type :: "string option"
  ov_defaultValue :: "jvalue option"
  ov_instructions :: "string option"
  ov_required :: "bool option"
  ov_restrictions :: "(string \<times> nat) list option"

definition no_overrides :: override_dict where
  "no_overrides =
     \<lparr>ov_label = None, ov_type = None, ov_defaultValue = None, ov_instructions = None,
      ov_required = None, ov_restrictions = None\<rparr>"

text \<open>
  The state of a \<^verbatim>\<open>FormDescription\<close>: \<open>http_method\<close> is its attribute \<^verbatim>\<open>method\<close>,
  \<open>form_fields\<close> its attribute \<^verbatim>\<open>fields\<close>, \<open>field_overrides\<close> its attribute
  \<^verbatim>\<open>_field_overrides\<close>.
\<close>

record form_desc =
  http_method :: string
  submit_url :: string
  form_fields :: "field_dict list"
  field_overrides :: "string \<Rightarrow> override_dict"

text \<open>
  Modelled from the spec: the class \<^verbatim>\<open>FormDescription\<close> of \<^verbatim>\<open>user_api/helpers.py\<close> is not
  among the sources; \<^verbatim>\<open>views.py\<close> calls its constructor, \<^verbatim>\<open>add_field\<close>,
  \<^verbatim>\<open>override_field_properties\<close> and \<^verbatim>\<open>to_json\<close>. The spec describes the result as "a
  JSON-serializable description of a web form (field name, type, label, placeholder,
  instructions, restrictions, default, required flag, error messages, options list)" in
  which "provider-supplied values override defaults for overlapping fields". So a form
  description holds the fields added so far and, per field name, the overridden properties;
  \<open>override_field_properties\<close> records properties for a name (a later value replaces an
  earlier one), and \<open>add_field\<close> appends the field built from its arguments, with the
  properties recorded for its name put over them. The spec names no failure of
  \<open>add_field\<close>, and none is modelled. The constructor: no field, no override.
\<close>

definition FormDescription :: "string \<Rightarrow> string \<Rightarrow> form_desc" where
  "FormDescription m url =
     \<lparr>http_method = m, submit_url = url, form_fields = [], field_overrides = (\<lambda>_. no_overrides)\<rparr>"

text \<open>
  Modelled from the spec: the keyword arguments of \<^verbatim>\<open>FormDescription.add_field\<close> that a
  call leaves out. A field is required unless the caller says otherwise (the handlers of
  \<^verbatim>\<open>views.py\<close> pass \<^verbatim>\<open>required\<close> themselves), its type is \<^verbatim>\<open>text\<close>, its texts are empty.
\<close>

definition field_kwargs :: "string \<Rightarrow> field_dict" where
  "field_kwargs nm =
     \<lparr>name = nm, label = '''', field_type = ''text'', defaultValue = JStr '''',
      placeholder = JStr '''', instructions = '''', required = True, restrictions = [],
      options = None, include_default_option = False, errorMessages = [],
      supplementalLink = '''', supplementalText = ''''\<rparr>"

text \<open>
  Modelled from the spec: \<^verbatim>\<open>FormDescription.override_field_properties(field_name, **kwargs)\<close>
  puts the given properties over those recorded for the name (\<^verbatim>\<open>dict.update\<close>); the
  keyword \<^verbatim>\<open>field_type\<close> is the property \<^verbatim>\<open>type\<close> and \<^verbatim>\<open>default\<close> is \<^verbatim>\<open>defaultValue\<close>.
\<close>

definition update_overrides :: "override_dict \<Rightarrow> override_dict \<Rightarrow> override_dict" where
  "update_overrides old new =
     \<lparr>ov_label = (case ov_label new of None \<Rightarrow> ov_label old | Some v \<Rightarrow> Some v),
      ov_type = (case ov_type new of None \<Rightarrow> ov_type old | Some v \<Rightarrow> Some v),
      ov_defaultValue =
        (case ov_defaultValue new of None \<Rightarrow> ov_defaultValue old | Some v \<Rightarrow> Some v),
      ov_instructions =
        (case ov_instructions new of None \<Rightarrow> ov_instructions old | Some v \<Rightarrow> Some v),
      ov_required = (case ov_required new of None \<Rightarrow> ov_required old | Some v \<Rightarrow> Some v),
      ov_restrictions =
        (case ov_restrictions new of None \<Rightarrow> ov_restrictions old | Some v \<Rightarrow> Some v)\<rparr>"

definition override_field_properties ::
  "form_desc \<Rightarrow> string \<Rightarrow> override_dict \<Rightarrow> form_desc" where
  "override_field_properties fd field_name kwargs =
     fd\<lparr>field_overrides :=
          (field_overrides fd)(field_name := update_overrides (field_overrides fd field_name) kwargs)\<rparr>"

text \<open>
  Modelled from the spec: \<^verbatim>\<open>FormDescription.add_field(name, **kwargs)\<close> appends the field
  built from its arguments, after the properties overridden for its name have replaced
  the corresponding arguments.
\<close>

definition apply_overrides :: "override_dict \<Rightarrow> field_dict \<Rightarrow> field_dict" where
  "apply_overrides ov f =
     f\<lparr>label := (case ov_label ov of None \<Rightarrow> label f | Some v \<Rightarrow> v),
       field_type := (case ov_type ov of None \<Rightarrow> field_type f | Some v \<Rightarrow> v),
       defaultValue := (case ov_defaultValue ov of None \<Rightarrow> defaultValue f | Some v \<Rightarrow> v),
       instructions := (case ov_instructions ov of None \<Rightarrow> instructions f | Some v \<Rightarrow> v),
       required := (case ov_required ov of None \<Rightarrow> required f | Some v \<Rightarrow> v),
       restrictions := (case ov_restrictions ov of None \<Rightarrow> restrictions f | Some v \<Rightarrow> v)\<rparr>"

text \<open>
  Modelled from the spec: \<^verbatim>\<open>FormDescription.add_field\<close> itself; \<open>kwargs\<close> is the field
  name with the keyword arguments of the call.
\<close>

definition add_field :: "form_desc \<Rightarrow> field_dict \<Rightarrow> form_desc" where
  "add_field fd kwargs =
     fd\<lparr>form_fields := form_fields fd @ [apply_overrides (field_overrides fd (name kwargs)) kwargs]\<rparr>"

section \<open>HTTP responses\<close>

text \<open>
  A response by its status, content type and body, and the user for whom
  \<^verbatim>\<open>set_logged_in_cookies\<close> was called on it. A JSON body is kept as the value that is
  serialised: the form description, the \<^verbatim>\<open>{"success": true}\<close> object, or the object that
  maps a field to its list of \<^verbatim>\<open>{"user_message": ...}\<close> entries. \<open>HttpResponse\<close>,
  \<open>JsonResponse\<close> and \<open>HttpResponseForbidden\<close> are the constructors of Django and of
  \<^verbatim>\<open>util.json_request\<close> with the arguments that \<^verbatim>\<open>views.py\<close> passes.
\<close>

datatype user_message = UserMessage string

datatype http_body =
    NoContent
  | Text string
  | JsonSuccess
  | JsonErrors "string \<rightharpoonup> user_message list"
  | JsonForm string string "field_dict list"

record http_response =
  status :: nat
  content_type :: string
  content :: http_body
  logged_in_cookies :: "string option"

definition HttpResponse :: "nat \<Rightarrow> http_body \<Rightarrow> string \<Rightarrow> http_response" where
  "HttpResponse st body ctype =
     \<lparr>status = st, content_type = ctype, content = body, logged_in_cookies = None\<rparr>"

definition JsonResponse :: "http_body \<Rightarrow> nat \<Rightarrow> http_response" where
  "JsonResponse body st = HttpResponse st body ''application/json''"

definition HttpResponseForbidden :: "string \<Rightarrow> http_response" where
  "HttpResponseForbidden msg = HttpResponse 403 (Text msg) ''text/html; charset=utf-8''"

text \<open>
  Modelled from the spec: \<^verbatim>\<open>FormDescription.to_json\<close> gives the "JSON-serializable
  description" of the form: its method, its submit URL and its fields.
\<close>

definition to_json :: "form_desc \<Rightarrow> http_body" where
  "to_json fd = JsonForm (http_method fd) (submit_url fd) (form_fields fd)"

section \<open>RegistrationView: construction\<close>

definition DEFAULT_FIELDS :: "string list" where
  "DEFAULT_FIELDS = [''email'', ''name'', ''username'', ''password'']"

definition EXTRA_FIELDS :: "string list" where
  "EXTRA_FIELDS =
     [''confirm_email'', ''first_name'', ''last_name'', ''city'', ''state'', ''country'',
      ''gender'', ''year_of_birth'', ''level_of_education'', ''company'', ''title'',
      ''mailing_address'', ''goals'', ''honor_code'', ''terms_of_service'']"

text \<open>
  The configuration read by the constructor. \<open>site_REGISTRATION_EXTRA_FIELDS\<close> and
  \<open>site_REGISTRATION_FIELD_ORDER\<close> are what \<^verbatim>\<open>configuration_helpers.get_value\<close> returns
  for these keys (\<open>None\<close> when the site configuration has no value); the other two are
  the attributes of \<^verbatim>\<open>django.conf.settings\<close>. Visibility values are strings.
\<close>

record configuration =
  site_REGISTRATION_EXTRA_FIELDS :: "(string \<rightharpoonup> string) option"
  REGISTRATION_EXTRA_FIELDS :: "string \<rightharpoonup> string"
  site_REGISTRATION_FIELD_ORDER :: "string list option"
  REGISTRATION_FIELD_ORDER :: "string list option"

text \<open>The attributes that \<^verbatim>\<open>__init__\<close> sets on the view.\<close>

record registration_view =
  extra_fields_setting :: "string \<rightharpoonup> string"
  field_order :: "string list"

text \<open>
  Lines 198-200: the site's mapping when it is truthy (neither \<^verbatim>\<open>None\<close> nor empty),
  else the mapping of the Django settings.
\<close>

definition configured_extra_fields :: "configuration \<Rightarrow> (string \<rightharpoonup> string)" where
  "configured_extra_fields cfg =
     (case site_REGISTRATION_EXTRA_FIELDS cfg of
        None \<Rightarrow> REGISTRATION_EXTRA_FIELDS cfg
      | Some m \<Rightarrow> (if m = Map.empty then REGISTRATION_EXTRA_FIELDS cfg else m))"

text \<open>
  Lines 216-218: the site's field order when it is truthy, else
  \<^verbatim>\<open>settings.REGISTRATION_FIELD_ORDER or valid_fields\<close>.
\<close>

definition configured_field_order :: "configuration \<Rightarrow> string list \<Rightarrow> string list" where
  "configured_field_order cfg valid_fields =
     (case site_REGISTRATION_FIELD_ORDER cfg of
        Some (f # fs) \<Rightarrow> f # fs
      | _ \<Rightarrow>
          (case REGISTRATION_FIELD_ORDER cfg of
             Some (f # fs) \<Rightarrow> f # fs
           | _ \<Rightarrow> valid_fields))"

text \<open>
  Lines 204-207: the loop over \<^verbatim>\<open>EXTRA_FIELDS\<close> that raises at the first field whose
  setting is none of the three visibility values.
\<close>

fun check_extra_fields :: "(string \<rightharpoonup> string) \<Rightarrow> string list \<Rightarrow> error option" where
  "check_extra_fields setting [] = None"
| "check_extra_fields setting (field_name # rest) =
     (if dict_get setting field_name ''hidden'' \<notin> set [''required'', ''optional'', ''hidden'']
      then Some (ImproperlyConfigured
        ''Setting REGISTRATION_EXTRA_FIELDS values must be either required, optional, or hidden.'')
      else check_extra_fields setting rest)"

text \<open>
  \<^verbatim>\<open>RegistrationView.__init__\<close>. Every name of \<open>valid_fields\<close> has its
  \<^verbatim>\<open>_add_<name>_field\<close> method, so filling \<^verbatim>\<open>field_handlers\<close> (lines 210-214) cannot
  fail; the handlers are dispatched by \<open>field_handlers\<close> below.
\<close>

definition RegistrationView_init :: "configuration \<Rightarrow> error + registration_view" where
  "RegistrationView_init cfg =
     (let setting0 = configured_extra_fields cfg;
          setting = setting0(''honor_code'' \<mapsto> dict_get setting0 ''honor_code'' ''required'')
      in case check_extra_fields setting EXTRA_FIELDS of
           Some err \<Rightarrow> Inl err
         | None \<Rightarrow>
             (let valid_fields = DEFAULT_FIELDS @ EXTRA_FIELDS;
                  order0 = configured_field_order cfg valid_fields;
                  order = (if set valid_fields \<noteq> set order0 then valid_fields else order0)
              in Inr \<lparr>extra_fields_setting = setting, field_order = order\<rparr>))"

definition is_field_visible :: "registration_view \<Rightarrow> string \<Rightarrow> bool" where
  "is_field_visible self field_name =
     (extra_fields_setting self field_name \<in> set [Some ''required'', Some ''optional''])"

definition is_field_required :: "registration_view \<Rightarrow> string \<Rightarrow> bool" where
  "is_field_required self field_name =
     (extra_fields_setting self field_name = Some ''required'')"

section \<open>RegistrationView: the registration form\<close>

text \<open>
  The constants of the \<^verbatim>\<open>accounts\<close> package that \<^verbatim>\<open>views.py\<close> reads. The package is not
  among the sources, so the constants are parameters.
\<close>

record accounts =
  EMAIL_MIN_LENGTH :: nat
  EMAIL_MAX_LENGTH :: nat
  NAME_MAX_LENGTH :: nat
  USERNAME_MIN_LENGTH :: nat
  USERNAME_MAX_LENGTH :: nat
  PASSWORD_MIN_LENGTH :: nat
  PASSWORD_MAX_LENGTH :: nat
  REQUIRED_FIELD_CONFIRM_EMAIL_MSG :: string
  REQUIRED_FIELD_LEVEL_OF_EDUCATION_MSG :: string
  REQUIRED_FIELD_MAILING_ADDRESS_MSG :: string
  REQUIRED_FIELD_GOALS_MSG :: string
  REQUIRED_FIELD_CITY_MSG :: string
  REQUIRED_FIELD_COUNTRY_MSG :: string
  EMAIL_CONFLICT_MSG :: string
  USERNAME_CONFLICT_MSG :: string

text \<open>
  A field of the registration extension form (a Django form field) and the form itself:
  \<open>ext_fields\<close> is \<^verbatim>\<open>custom_form.fields.items()\<close>, \<open>serialization_options\<close> is
  \<^verbatim>\<open>custom_form.Meta.serialization_options\<close> (empty when the form has none). An attribute
  that a field lacks is \<open>None\<close>.
\<close>

record extension_field =
  ext_class :: string
  ext_label :: string
  ext_initial :: jvalue
  ext_help_text :: string
  ext_required :: bool
  ext_max_length :: "nat option"
  ext_min_length :: "nat option"
  ext_choices :: "(string \<times> string) list option"
  ext_error_messages :: "(string \<times> string) list"

record serialization_option =
  opt_field_type :: "string option"
  opt_default :: "jvalue option"
  opt_include_default_option :: "bool option"

record extension_form =
  ext_fields :: "(string \<times> extension_field) list"
  serialization_options :: "string \<rightharpoonup> serialization_option"

text \<open>
  What the view reads from outside itself: the platform name
  (\<^verbatim>\<open>configuration_helpers.get_value("PLATFORM_NAME", settings.PLATFORM_NAME)\<close>), the
  functions \<^verbatim>\<open>marketing_link\<close> and \<^verbatim>\<open>reverse\<close>, the \<^verbatim>\<open>accounts\<close> constants, the choice
  tables of \<^verbatim>\<open>UserProfile\<close>, the country list, \<^verbatim>\<open>FormDescription.FIELD_TYPE_MAP\<close> (keyed by
  the name of the form field class), \<^verbatim>\<open>third_party_auth.is_enabled()\<close> and
  \<^verbatim>\<open>get_registration_extension_form()\<close>.
\<close>

record environment =
  PLATFORM_NAME :: string
  marketing_link :: "string \<Rightarrow> string"
  reverse :: "string \<Rightarrow> string"
  accounts_consts :: accounts
  LEVEL_OF_EDUCATION_CHOICES :: "(string \<times> string) list"
  GENDER_CHOICES :: "(string \<times> string) list"
  VALID_YEARS :: "nat list"
  countries :: "(string \<times> string) list"
  FIELD_TYPE_MAP :: "string \<rightharpoonup> string"
  third_party_auth_is_enabled :: bool
  registration_extension_form :: "extension_form option"

text \<open>
  The third-party-auth state of a request. \<open>running_pipeline\<close> is
  \<^verbatim>\<open>third_party_auth.pipeline.get(request)\<close>, given by its \<^verbatim>\<open>kwargs\<close> entry, \<open>None\<close> when
  there is no (truthy) pipeline; \<open>current_provider\<close> is
  \<^verbatim>\<open>Registry.get_from_pipeline(running_pipeline)\<close>; \<open>enterprise_customer\<close> is the
  truth value of \<^verbatim>\<open>enterprise_customer_for_request(request)\<close>.
\<close>

type_synonym pipeline_kwargs = "string \<rightharpoonup> jvalue"

record provider =
  provider_name :: string
  skip_registration_form :: bool
  get_register_form_data :: "pipeline_kwargs \<Rightarrow> (string \<rightharpoonup> jvalue)"

record request =
  running_pipeline :: "pipeline_kwargs option"
  current_provider :: "provider option"
  enterprise_customer :: bool

subsection \<open>The field handlers\<close>

definition add_email_field :: "environment \<Rightarrow> form_desc \<Rightarrow> bool \<Rightarrow> form_desc" where
  "add_email_field env form_desc req =
     add_field form_desc ((field_kwargs ''email'')
       \<lparr>field_type := ''email'',
        label := ''Email'',
        placeholder := JStr ''username@domain.com'',
        instructions := ''This is what you will use to login.'',
        restrictions := [(''min_length'', EMAIL_MIN_LENGTH (accounts_consts env)),
                         (''max_length'', EMAIL_MAX_LENGTH (accounts_consts env))],
        required := req\<rparr>)"

definition add_confirm_email_field :: "environment \<Rightarrow> form_desc \<Rightarrow> bool \<Rightarrow> form_desc" where
  "add_confirm_email_field env form_desc req =
     add_field form_desc ((field_kwargs ''confirm_email'')
       \<lparr>label := ''Confirm Email'',
        required := req,
        errorMessages := [(''required'', REQUIRED_FIELD_CONFIRM_EMAIL_MSG (accounts_consts env))]\<rparr>)"

definition add_name_field :: "environment \<Rightarrow> form_desc \<Rightarrow> bool \<Rightarrow> form_desc" where
  "add_name_field env form_desc req =
     add_field form_desc ((field_kwargs ''name'')
       \<lparr>label := ''Full Name'',
        placeholder := JStr ''Jane Q. Learner'',
        instructions := ''This name will be used on any certificates that you earn.'',
        restrictions := [(''max_length'', NAME_MAX_LENGTH (accounts_consts env))],
        required := req\<rparr>)"

definition add_username_field :: "environment \<Rightarrow> form_desc \<Rightarrow> bool \<Rightarrow> form_desc" where
  "add_username_field env form_desc req =
     add_field form_desc ((field_kwargs ''username'')
       \<lparr>label := ''Public Username'',
        instructions :=
          ''The name that will identify you in your courses. It cannot be changed later.'',
        placeholder := JStr ''Jane_Q_Learner'',
        restrictions := [(''min_length'', USERNAME_MIN_LENGTH (accounts_consts env)),
                         (''max_length'', USERNAME_MAX_LENGTH (accounts_consts env))],
        required := req\<rparr>)"

definition add_password_field :: "environment \<Rightarrow> form_desc \<Rightarrow> bool \<Rightarrow> form_desc" where
  "add_password_field env form_desc req =
     add_field form_desc ((field_kwargs ''password'')
       \<lparr>label := ''Password'',
        field_type := ''password'',
        restrictions := [(''min_length'', PASSWORD_MIN_LENGTH (accounts_consts env)),
                         (''max_length'', PASSWORD_MAX_LENGTH (accounts_consts env))],
        required := req\<rparr>)"

definition add_level_of_education_field ::
  "environment \<Rightarrow> form_desc \<Rightarrow> bool \<Rightarrow> form_desc" where
  "add_level_of_education_field env form_desc req =
     add_field form_desc ((field_kwargs ''level_of_education'')
       \<lparr>label := ''Highest level of education completed'',
        field_type := ''select'',
        options := Some (LEVEL_OF_EDUCATION_CHOICES env),
        include_default_option := True,
        required := req,
        errorMessages :=
          [(''required'', REQUIRED_FIELD_LEVEL_OF_EDUCATION_MSG (accounts_consts env))]\<rparr>)"

definition add_gender_field :: "environment \<Rightarrow> form_desc \<Rightarrow> bool \<Rightarrow> form_desc" where
  "add_gender_field env form_desc req =
     add_field form_desc ((field_kwargs ''gender'')
       \<lparr>label := ''Gender'',
        field_type := ''select'',
        options := Some (GENDER_CHOICES env),
        include_default_option := True,
        required := req\<rparr>)"

definition add_year_of_birth_field :: "environment \<Rightarrow> form_desc \<Rightarrow> bool \<Rightarrow> form_desc" where
  "add_year_of_birth_field env form_desc req =
     add_field form_desc ((field_kwargs ''year_of_birth'')
       \<lparr>label := ''Year of birth'',
        field_type := ''select'',
        options := Some (map (\<lambda>year. (unicode_of_nat year, unicode_of_nat year)) (VALID_YEARS env)),
        include_default_option := True,
        required := req\<rparr>)"

definition add_mailing_address_field ::
  "environment \<Rightarrow> form_desc \<Rightarrow> bool \<Rightarrow> form_desc" where
  "add_mailing_address_field env form_desc req =
     add_field form_desc ((field_kwargs ''mailing_address'')
       \<lparr>label := ''Mailing address'',
        field_type := ''textarea'',
        required := req,
        errorMessages :=
          [(''required'', REQUIRED_FIELD_MAILING_ADDRESS_MSG (accounts_consts env))]\<rparr>)"

definition add_goals_field :: "environment \<Rightarrow> form_desc \<Rightarrow> bool \<Rightarrow> form_desc" where
  "add_goals_field env form_desc req =
     add_field form_desc ((field_kwargs ''goals'')
       \<lparr>label :=
          format_field ''platform_name'' (PLATFORM_NAME env)
            (''Tell us why you'' @ [CHR 0x27] @ ''re interested in {platform_name}''),
        field_type := ''textarea'',
        required := req,
        errorMessages := [(''required'', REQUIRED_FIELD_GOALS_MSG (accounts_consts env))]\<rparr>)"

definition add_city_field :: "environment \<Rightarrow> form_desc \<Rightarrow> bool \<Rightarrow> form_desc" where
  "add_city_field env form_desc req =
     add_field form_desc ((field_kwargs ''city'')
       \<lparr>label := ''City'',
        required := req,
        errorMessages := [(''required'', REQUIRED_FIELD_CITY_MSG (accounts_consts env))]\<rparr>)"

definition add_state_field :: "environment \<Rightarrow> form_desc \<Rightarrow> bool \<Rightarrow> form_desc" where
  "add_state_field env form_desc req =
     add_field form_desc ((field_kwargs ''state'')
       \<lparr>label := ''State/Province/Region'', required := req\<rparr>)"

definition add_company_field :: "environment \<Rightarrow> form_desc \<Rightarrow> bool \<Rightarrow> form_desc" where
  "add_company_field env form_desc req =
     add_field form_desc ((field_kwargs ''company'')
       \<lparr>label := ''Company'', required := req\<rparr>)"

definition add_title_field :: "environment \<Rightarrow> form_desc \<Rightarrow> bool \<Rightarrow> form_desc" where
  "add_title_field env form_desc req =
     add_field form_desc ((field_kwargs ''title'')
       \<lparr>label := ''Title'', required := req\<rparr>)"

definition add_first_name_field :: "environment \<Rightarrow> form_desc \<Rightarrow> bool \<Rightarrow> form_desc" where
  "add_first_name_field env form_desc req =
     add_field form_desc ((field_kwargs ''first_name'')
       \<lparr>label := ''First Name'', required := req\<rparr>)"

definition add_last_name_field :: "environment \<Rightarrow> form_desc \<Rightarrow> bool \<Rightarrow> form_desc" where
  "add_last_name_field env form_desc req =
     add_field form_desc ((field_kwargs ''last_name'')
       \<lparr>label := ''Last Name'', required := req\<rparr>)"

text \<open>
  \<^verbatim>\<open>_add_country_field\<close> first puts an overridden default country into upper case;
  \<^verbatim>\<open>.upper()\<close> on a truthy default that is not a string raises \<^verbatim>\<open>AttributeError\<close>.
\<close>

definition add_country_field ::
  "environment \<Rightarrow> form_desc \<Rightarrow> bool \<Rightarrow> error + form_desc" where
  "add_country_field env form_desc req =
     (let kwargs = (field_kwargs ''country'')
            \<lparr>label := ''Country'',
             field_type := ''select'',
             options := Some (countries env),
             include_default_option := True,
             required := req,
             errorMessages := [(''required'', REQUIRED_FIELD_COUNTRY_MSG (accounts_consts env))]\<rparr>
      in case ov_defaultValue (field_overrides form_desc ''country'') of
           Some (JStr default_country) \<Rightarrow>
             (if default_country \<noteq> []
              then Inr (add_field
                     (override_field_properties form_desc ''country''
                        (no_overrides\<lparr>ov_defaultValue := Some (JStr (upper default_country))\<rparr>))
                     kwargs)
              else Inr (add_field form_desc kwargs))
         | Some (JBool True) \<Rightarrow> Inl (AttributeError ''upper'')
         | _ \<Rightarrow> Inr (add_field form_desc kwargs))"

definition add_honor_code_field ::
  "environment \<Rightarrow> registration_view \<Rightarrow> form_desc \<Rightarrow> bool \<Rightarrow> form_desc" where
  "add_honor_code_field env self form_desc req =
     (let terms_label =
            (if is_field_visible self ''terms_of_service'' then ''Honor Code''
             else ''Terms of Service and Honor Code'');
          terms_link = marketing_link env ''HONOR'';
          terms_text =
            (if is_field_visible self ''terms_of_service'' then ''Review the Honor Code''
             else ''Review the Terms of Service and Honor Code'');
          lbl = format_field ''platform_name'' (PLATFORM_NAME env)
                  (format_field ''terms_of_service'' terms_label
                     ''I agree to the {platform_name} {terms_of_service}'');
          error_msg = format_field ''platform_name'' (PLATFORM_NAME env)
                  (format_field ''terms_of_service'' terms_label
                     ''You must agree to the {platform_name} {terms_of_service}'')
      in add_field form_desc ((field_kwargs ''honor_code'')
           \<lparr>label := lbl,
            field_type := ''checkbox'',
            defaultValue := JBool False,
            required := req,
            errorMessages := [(''required'', error_msg)],
            supplementalLink := terms_link,
            supplementalText := terms_text\<rparr>))"

definition add_terms_of_service_field ::
  "environment \<Rightarrow> form_desc \<Rightarrow> bool \<Rightarrow> form_desc" where
  "add_terms_of_service_field env form_desc req =
     (let terms_label = ''Terms of Service'';
          terms_link = marketing_link env ''TOS'';
          terms_text = ''Review the Terms of Service'';
          lbl = format_field ''platform_name'' (PLATFORM_NAME env)
                  (format_field ''terms_of_service'' terms_label
                     ''I agree to the {platform_name} {terms_of_service}'');
          error_msg = format_field ''platform_name'' (PLATFORM_NAME env)
                  (format_field ''terms_of_service'' terms_label
                     ''You must agree to the {platform_name} {terms_of_service}'')
      in add_field form_desc ((field_kwargs ''terms_of_service'')
           \<lparr>label := lbl,
            field_type := ''checkbox'',
            defaultValue := JBool False,
            required := req,
            errorMessages := [(''required'', error_msg)],
            supplementalLink := terms_link,
            supplementalText := terms_text\<rparr>))"

text \<open>
  \<^verbatim>\<open>self.field_handlers[field_name](form_desc, required=req)\<close>: the handler that
  \<^verbatim>\<open>__init__\<close> stored under the name, \<^verbatim>\<open>KeyError\<close> for a name that is no valid field.
\<close>

definition field_handlers ::
  "environment \<Rightarrow> registration_view \<Rightarrow> string \<Rightarrow> form_desc \<Rightarrow> bool \<Rightarrow> error + form_desc" where
  "field_handlers env self field_name form_desc req =
     (if field_name = ''email'' then Inr (add_email_field env form_desc req)
      else if field_name = ''name'' then Inr (add_name_field env form_desc req)
      else if field_name = ''username'' then Inr (add_username_field env form_desc req)
      else if field_name = ''password'' then Inr (add_password_field env form_desc req)
      else if field_name = ''confirm_email'' then Inr (add_confirm_email_field env form_desc req)
      else if field_name = ''first_name'' then Inr (add_first_name_field env form_desc req)
      else if field_name = ''last_name'' then Inr (add_last_name_field env form_desc req)
      else if field_name = ''city'' then Inr (add_city_field env form_desc req)
      else if field_name = ''state'' then Inr (add_state_field env form_desc req)
      else if field_name = ''country'' then add_country_field env form_desc req
      else if field_name = ''gender'' then Inr (add_gender_field env form_desc req)
      else if field_name = ''year_of_birth'' then Inr (add_year_of_birth_field env form_desc req)
      else if field_name = ''level_of_education''
        then Inr (add_level_of_education_field env form_desc req)
      else if field_name = ''company'' then Inr (add_company_field env form_desc req)
      else if field_name = ''title'' then Inr (add_title_field env form_desc req)
      else if field_name = ''mailing_address''
        then Inr (add_mailing_address_field env form_desc req)
      else if field_name = ''goals'' then Inr (add_goals_field env form_desc req)
      else if field_name = ''honor_code'' then Inr (add_honor_code_field env self form_desc req)
      else if field_name = ''terms_of_service''
        then Inr (add_terms_of_service_field env form_desc req)
      else Inl (KeyError field_name))"

subsection \<open>Third-party-auth overrides\<close>

text \<open>
  Lines 955-970: the loop over the valid field names. \<open>overrides\<close> is the provider's
  \<^verbatim>\<open>field_overrides\<close> dictionary, \<open>hide\<close> is \<^verbatim>\<open>hide_registration_fields_except_tos\<close>.
\<close>

fun override_provider_fields ::
  "(string \<rightharpoonup> jvalue) \<Rightarrow> bool \<Rightarrow> string list \<Rightarrow> form_desc \<Rightarrow> form_desc" where
  "override_provider_fields overrides hide [] form_desc = form_desc"
| "override_provider_fields overrides hide (field_name # rest) form_desc =
     (case overrides field_name of
        None \<Rightarrow> override_provider_fields overrides hide rest form_desc
      | Some v \<Rightarrow>
          (let fd1 = override_field_properties form_desc field_name
                       (no_overrides\<lparr>ov_defaultValue := Some v\<rparr>);
               fd2 = (if field_name \<notin> set [''terms_of_service'', ''honor_code'']
                         \<and> truthy v \<and> hide
                      then override_field_properties fd1 field_name
                             (no_overrides\<lparr>ov_type := Some ''hidden'', ov_label := Some '''',
                                ov_instructions := Some ''''\<rparr>)
                      else fd1)
           in override_provider_fields overrides hide rest fd2))"

definition apply_third_party_auth_overrides ::
  "environment \<Rightarrow> request \<Rightarrow> form_desc \<Rightarrow> form_desc" where
  "apply_third_party_auth_overrides env request form_desc =
     (if third_party_auth_is_enabled env then
        (case running_pipeline request of
           None \<Rightarrow> form_desc
         | Some kwargs \<Rightarrow>
             (case current_provider request of
                None \<Rightarrow> form_desc
              | Some prov \<Rightarrow>
                  (let overrides = get_register_form_data prov kwargs;
                       hide_registration_fields_except_tos =
                         (skip_registration_form prov \<and> enterprise_customer request);
                       fd1 = override_provider_fields overrides hide_registration_fields_except_tos
                               (DEFAULT_FIELDS @ EXTRA_FIELDS) form_desc;
                       fd2 = override_field_properties fd1 ''password''
                               (no_overrides\<lparr>ov_defaultValue := Some (JStr ''''),
                                  ov_type := Some ''hidden'', ov_required := Some False,
                                  ov_label := Some '''', ov_instructions := Some '''',
                                  ov_restrictions := Some []\<rparr>)
                   in add_field fd2 ((field_kwargs ''social_auth_provider'')
                        \<lparr>field_type := ''hidden'',
                         label := '''',
                         defaultValue :=
                           JStr (if provider_name prov \<noteq> [] then provider_name prov
                                 else ''Third Party''),
                         required := False\<rparr>))))
      else form_desc)"

subsection \<open>RegistrationView.get\<close>

text \<open>Lines 256-257: the default fields, each required.\<close>

fun add_default_fields ::
  "environment \<Rightarrow> registration_view \<Rightarrow> string list \<Rightarrow> form_desc \<Rightarrow> error + form_desc" where
  "add_default_fields env self [] form_desc = Inr form_desc"
| "add_default_fields env self (field_name # rest) form_desc =
     (case field_handlers env self field_name form_desc True of
        Inl e \<Rightarrow> Inl e
      | Inr fd \<Rightarrow> add_default_fields env self rest fd)"

text \<open>
  Lines 259-284: the fields of the extension form. A length of 0 is falsy, and so is a
  field type that is missing or empty.
\<close>

definition extension_restrictions :: "extension_field \<Rightarrow> (string \<times> nat) list" where
  "extension_restrictions field =
     (case ext_max_length field of
        Some n \<Rightarrow> (if n \<noteq> 0 then [(''max_length'', n)] else [])
      | None \<Rightarrow> []) @
     (case ext_min_length field of
        Some n \<Rightarrow> (if n \<noteq> 0 then [(''min_length'', n)] else [])
      | None \<Rightarrow> [])"

definition extension_field_type ::
  "environment \<Rightarrow> serialization_option option \<Rightarrow> extension_field \<Rightarrow> string option" where
  "extension_field_type env field_options field =
     (case field_options of
        None \<Rightarrow> FIELD_TYPE_MAP env (ext_class field)
      | Some opts \<Rightarrow>
          (case opt_field_type opts of
             Some t \<Rightarrow> Some t
           | None \<Rightarrow> FIELD_TYPE_MAP env (ext_class field)))"

fun add_extension_fields ::
  "environment \<Rightarrow> extension_form \<Rightarrow> (string \<times> extension_field) list \<Rightarrow> form_desc
     \<Rightarrow> error + form_desc" where
  "add_extension_fields env custom_form [] form_desc = Inr form_desc"
| "add_extension_fields env custom_form ((field_name, field) # rest) form_desc =
     (let field_options = serialization_options custom_form field_name;
          ftype = extension_field_type env field_options field
      in if ftype = None \<or> ftype = Some '''' then
           Inl (ImproperlyConfigured
             (''Field type '' @ [CHR 0x27] @ py_str ftype @ [CHR 0x27]
              @ '' not recognized for registration extension field '' @ [CHR 0x27] @ field_name
              @ [CHR 0x27] @ ''.''))
         else
           add_extension_fields env custom_form rest
             (add_field form_desc ((field_kwargs field_name)
                \<lparr>label := ext_label field,
                 defaultValue :=
                   (case field_options of
                      None \<Rightarrow> JNull
                    | Some opts \<Rightarrow> (case opt_default opts of None \<Rightarrow> JNull | Some v \<Rightarrow> v)),
                 field_type := py_str ftype,
                 placeholder := ext_initial field,
                 instructions := ext_help_text field,
                 required := ext_required field,
                 restrictions := extension_restrictions field,
                 options := ext_choices field,
                 errorMessages := ext_error_messages field,
                 include_default_option :=
                   (case field_options of
                      None \<Rightarrow> False
                    | Some opts \<Rightarrow>
                        (case opt_include_default_option opts of None \<Rightarrow> False | Some b \<Rightarrow> b))\<rparr>)))"

text \<open>Lines 288-293: the extra fields that the settings make visible.\<close>

fun add_extra_fields ::
  "environment \<Rightarrow> registration_view \<Rightarrow> string list \<Rightarrow> form_desc \<Rightarrow> error + form_desc" where
  "add_extra_fields env self [] form_desc = Inr form_desc"
| "add_extra_fields env self (field_name # rest) form_desc =
     (if is_field_visible self field_name then
        (case field_handlers env self field_name form_desc (is_field_required self field_name) of
           Inl e \<Rightarrow> Inl e
         | Inr fd \<Rightarrow> add_extra_fields env self rest fd)
      else add_extra_fields env self rest form_desc)"

text \<open>Lines 296-303: without an extension form, the fields in the field order.\<close>

fun add_ordered_fields ::
  "environment \<Rightarrow> registration_view \<Rightarrow> string list \<Rightarrow> form_desc \<Rightarrow> error + form_desc" where
  "add_ordered_fields env self [] form_desc = Inr form_desc"
| "add_ordered_fields env self (field_name # rest) form_desc =
     (if field_name \<in> set DEFAULT_FIELDS then
        (case field_handlers env self field_name form_desc True of
           Inl e \<Rightarrow> Inl e
         | Inr fd \<Rightarrow> add_ordered_fields env self rest fd)
      else if is_field_visible self field_name then
        (case field_handlers env self field_name form_desc (is_field_required self field_name) of
           Inl e \<Rightarrow> Inl e
         | Inr fd \<Rightarrow> add_ordered_fields env self rest fd)
      else add_ordered_fields env self rest form_desc)"

text \<open>
  The form description that \<^verbatim>\<open>get\<close> builds (lines 248-303), and \<^verbatim>\<open>get\<close> itself, which
  returns it as JSON.
\<close>

definition registration_form ::
  "environment \<Rightarrow> registration_view \<Rightarrow> request \<Rightarrow> error + form_desc" where
  "registration_form env self request =
     (let form_desc =
            apply_third_party_auth_overrides env request
              (FormDescription ''post'' (reverse env ''user_api_registration''))
      in case registration_extension_form env of
           Some custom_form \<Rightarrow>
             (case add_default_fields env self DEFAULT_FIELDS form_desc of
                Inl e \<Rightarrow> Inl e
              | Inr fd1 \<Rightarrow>
                  (case add_extension_fields env custom_form (ext_fields custom_form) fd1 of
                     Inl e \<Rightarrow> Inl e
                   | Inr fd2 \<Rightarrow> add_extra_fields env self EXTRA_FIELDS fd2))
         | None \<Rightarrow> add_ordered_fields env self (field_order self) form_desc)"

definition RegistrationView_get ::
  "environment \<Rightarrow> registration_view \<Rightarrow> request \<Rightarrow> error + http_response" where
  "RegistrationView_get env self request =
     (case registration_form env self request of
        Inl e \<Rightarrow> Inl e
      | Inr form_desc \<Rightarrow> Inr (HttpResponse 200 (to_json form_desc) ''application/json''))"

section \<open>RegistrationView.post\<close>

type_synonym post_data = "string \<rightharpoonup> string"

text \<open>
  What \<^verbatim>\<open>create_account_with_params\<close> (\<^verbatim>\<open>student.views\<close>, not among the sources) does
  with the submitted data: it returns the new user or raises one of the exceptions that
  \<^verbatim>\<open>post\<close> catches. A \<^verbatim>\<open>ValidationError\<close> carries a dictionary of messages per field, or
  only a list of messages; \<^verbatim>\<open>message_dict\<close> of the latter raises \<^verbatim>\<open>AttributeError\<close>.
\<close>

datatype validation_error =
    FieldErrors "string \<rightharpoonup> string list"
  | Messages "string list"

datatype create_account_outcome =
    Created string
  | RaiseAccountValidationError string string
  | RaiseValidationError validation_error
  | RaisePermissionDenied

definition NON_FIELD_ERRORS :: string where
  "NON_FIELD_ERRORS = ''__all__''"

text \<open>
  Lines 338-341: the dictionary comprehension over the conflicting fields;
  \<^verbatim>\<open>conflict_messages[field]\<close> raises \<^verbatim>\<open>KeyError\<close> for a field that has no message.
\<close>

fun conflict_errors ::
  "(string \<rightharpoonup> string) \<Rightarrow> (string \<rightharpoonup> user_message list) \<Rightarrow> string list
     \<Rightarrow> error + (string \<rightharpoonup> user_message list)" where
  "conflict_errors conflict_messages errors [] = Inr errors"
| "conflict_errors conflict_messages errors (field # rest) =
     (case conflict_messages field of
        None \<Rightarrow> Inl (KeyError field)
      | Some msg \<Rightarrow> conflict_errors conflict_messages (errors(field \<mapsto> [UserMessage msg])) rest)"

text \<open>
  \<^verbatim>\<open>RegistrationView.post\<close>. The parameters \<open>check_account_exists\<close> (called with the
  username and the email, it returns the list of conflicting fields) and
  \<open>create_account_with_params\<close> stand for the functions of the same names, which are not
  among the sources. The second component of the result lists the data with which
  \<open>create_account_with_params\<close> was called. \<open>RaiseAccountValidationError msg field\<close>
  carries the message and the field of the exception.
\<close>

definition RegistrationView_post ::
  "accounts \<Rightarrow> (string option \<Rightarrow> string option \<Rightarrow> string list)
     \<Rightarrow> (post_data \<Rightarrow> create_account_outcome) \<Rightarrow> post_data
     \<Rightarrow> (error + http_response) \<times> post_data list" where
  "RegistrationView_post acc check_account_exists create_account_with_params request_POST =
     (let data0 = request_POST;
          email = data0 ''email'';
          username = data0 ''username'';
          conflicts = check_account_exists username email
      in if conflicts \<noteq> [] then
           (let conflict_messages =
                  [''email'' \<mapsto> format_field ''email_address'' (py_str email) (EMAIL_CONFLICT_MSG acc),
                   ''username'' \<mapsto> format_field ''username'' (py_str username) (USERNAME_CONFLICT_MSG acc)]
            in case conflict_errors conflict_messages Map.empty conflicts of
                 Inl e \<Rightarrow> (Inl e, [])
               | Inr errors \<Rightarrow> (Inr (JsonResponse (JsonErrors errors) 409), []))
         else
           (let data1 =
                  (case data0 ''honor_code'' of
                     Some honor_code \<Rightarrow>
                       (if honor_code \<noteq> [] \<and> data0 ''terms_of_service'' = None
                        then data0(''terms_of_service'' \<mapsto> honor_code)
                        else data0)
                   | None \<Rightarrow> data0)
            in (case create_account_with_params data1 of
                  Created usr \<Rightarrow>
                    Inr ((JsonResponse JsonSuccess 200)\<lparr>logged_in_cookies := Some usr\<rparr>)
                | RaiseAccountValidationError msg field \<Rightarrow>
                    Inr (JsonResponse (JsonErrors [field \<mapsto> [UserMessage msg]]) 409)
                | RaiseValidationError (Messages msgs) \<Rightarrow> Inl (AttributeError ''error_dict'')
                | RaiseValidationError (FieldErrors message_dict) \<Rightarrow>
                    (if message_dict NON_FIELD_ERRORS \<noteq> None then Inl AssertionError
                     else Inr (JsonResponse
                       (JsonErrors (\<lambda>field. map_option (map UserMessage) (message_dict field)))
                       400))
                | RaisePermissionDenied \<Rightarrow>
                    Inr (HttpResponseForbidden ''Account creation not allowed.''),
                [data1])))"

section \<open>UpdateEmailOptInPreference\<close>

text \<open>
  A request to the endpoint: \<open>data\<close> holds the parameters of the request body
  (\<^verbatim>\<open>request.data\<close>, the POST parameters), \<open>user\<close> is \<^verbatim>\<open>request.user\<close>. The values are
  unicode strings, given by their code points; the model has the code points below 256.
\<close>

record optin_request =
  data :: "string \<rightharpoonup> string"
  user :: string

definition HttpResponseBadRequest :: "string \<Rightarrow> http_response" where
  "HttpResponseBadRequest msg = HttpResponse 400 (Text msg) ''text/html; charset=utf-8''"

text \<open>
  Modelled from the spec: the decorator \<^verbatim>\<open>require_post_params\<close> (\<^verbatim>\<open>user_api/helpers.py\<close>) is
  not among the sources. The spec gives the endpoint the "body fields \<^verbatim>\<open>course_id\<close>,
  \<^verbatim>\<open>email_opt_in\<close>" and surfaces "missing/invalid field values" with HTTP 400: a request
  that lacks one of the required parameters is answered with HTTP 400 and the decorated
  method does not run. The spec does not give the text of that response, so it is the
  parameter \<open>missing_message\<close>, applied to the parameters that are missing.
\<close>

definition require_post_params ::
  "(string list \<Rightarrow> string) \<Rightarrow> string list
     \<Rightarrow> (optin_request \<Rightarrow> 's \<Rightarrow> (error + http_response) \<times> 's)
     \<Rightarrow> optin_request \<Rightarrow> 's \<Rightarrow> (error + http_response) \<times> 's" where
  "require_post_params missing_message required_params func request store =
     (let missing_params = filter (\<lambda>p. data request p = None) required_params
      in if missing_params \<noteq> []
         then (Inr (HttpResponseBadRequest (missing_message missing_params)), store)
         else func request store)"

text \<open>
  The ASCII codec of Python 2. \<^verbatim>\<open>views.py\<close> does not import \<^verbatim>\<open>unicode_literals\<close>, so the
  template at line 1138 is a byte string, and \<^verbatim>\<open>str.format\<close> encodes a unicode argument
  with the ASCII codec: a code point above 127 raises \<^verbatim>\<open>UnicodeEncodeError\<close>.
\<close>

definition is_ascii :: "string \<Rightarrow> bool" where
  "is_ascii s = list_all (\<lambda>c. (of_char c :: nat) < 128) s"

text \<open>
  The body of \<^verbatim>\<open>UpdateEmailOptInPreference.post\<close> (lines 1132-1144). Two parameters stand
  for what the method calls outside the sources: \<open>course_org\<close> for
  \<^verbatim>\<open>locator.CourseLocator.from_string(course_id).org\<close> of the opaque-keys library, \<open>None\<close>
  when \<^verbatim>\<open>InvalidKeyError\<close> is raised, and \<open>update_opt_in\<close> for
  \<^verbatim>\<open>preferences.api.update_email_opt_in\<close>, as the change it makes to the stored
  preferences \<open>store\<close>. The result is the outcome of the call and the store after it.
\<close>

definition UpdateEmailOptInPreference_post_body ::
  "(string \<Rightarrow> string option) \<Rightarrow> ('s \<Rightarrow> string \<Rightarrow> string \<Rightarrow> bool \<Rightarrow> 's) \<Rightarrow> optin_request \<Rightarrow> 's
     \<Rightarrow> (error + http_response) \<times> 's" where
  "UpdateEmailOptInPreference_post_body course_org update_opt_in request store =
     (case data request ''course_id'' of
        None \<Rightarrow> (Inl (KeyError ''course_id''), store)
      | Some course_id \<Rightarrow>
          (case course_org course_id of
             None \<Rightarrow>
               (if is_ascii course_id then
                  (Inr (HttpResponse 400
                          (Text (''No course '' @ [CHR 0x27] @ course_id @ [CHR 0x27]
                                 @ '' found''))
                          ''text/plain''),
                   store)
                else (Inl UnicodeEncodeError, store))
           | Some org \<Rightarrow>
               (case data request ''email_opt_in'' of
                  None \<Rightarrow> (Inl (KeyError ''email_opt_in''), store)
                | Some s \<Rightarrow>
                    (let email_opt_in = (lower s = ''true'')
                     in (Inr (HttpResponse 200 NoContent ''text/html; charset=utf-8''),
                         update_opt_in store (user request) org email_opt_in)))))"

text \<open>
  \<^verbatim>\<open>UpdateEmailOptInPreference.post\<close> as the view has it (lines 1115-1117): the body under
  \<^verbatim>\<open>require_post_params(["course_id", "email_opt_in"])\<close>. The other decorator,
  \<^verbatim>\<open>ensure_csrf_cookie\<close>, only sets a cookie on the response, which the model of a response
  does not hold.
\<close>

definition UpdateEmailOptInPreference_post ::
  "(string list \<Rightarrow> string) \<Rightarrow> (string \<Rightarrow> string option) \<Rightarrow> ('s \<Rightarrow> string \<Rightarrow> string \<Rightarrow> bool \<Rightarrow> 's)
     \<Rightarrow> optin_request \<Rightarrow> 's \<Rightarrow> (error + http_response) \<times> 's" where
  "UpdateEmailOptInPreference_post missing_message course_org update_opt_in =
     require_post_params missing_message [''course_id'', ''email_opt_in'']
       (UpdateEmailOptInPreference_post_body course_org update_opt_in)"

text \<open>
  Modelled from the spec: \<^verbatim>\<open>preferences.api.update_email_opt_in\<close> is not among the
  sources. The spec says the endpoint "upserts a boolean opt-in preference for that
  organization", a preference being identified by user and key. The stored preferences
  are one boolean per user and organization.
\<close>

type_synonym optin_prefs = "(string \<times> string) \<rightharpoonup> bool"

definition update_email_opt_in ::
  "optin_prefs \<Rightarrow> string \<Rightarrow> string \<Rightarrow> bool \<Rightarrow> optin_prefs" where
  "update_email_opt_in prefs usr org opt_in = prefs((usr, org) \<mapsto> opt_in)"

section \<open>Invariants of the form builder\<close>

text \<open>
  The predicates used to reason about \<^verbatim>\<open>get\<close>. A field \<open>conforms\<close> to the overrides
  recorded for its name when it carries every overridden property; the default value of
  \<^verbatim>\<open>country\<close> is left out, since \<^verbatim>\<open>_add_country_field\<close> rewrites that override.
\<close>

definition conforms :: "override_dict \<Rightarrow> field_dict \<Rightarrow> bool" where
  "conforms ov f \<longleftrightarrow>
     (case ov_type ov of None \<Rightarrow> True | Some v \<Rightarrow> field_type f = v) \<and>
     (case ov_label ov of None \<Rightarrow> True | Some v \<Rightarrow> label f = v) \<and>
     (case ov_instructions ov of None \<Rightarrow> True | Some v \<Rightarrow> instructions f = v) \<and>
     (case ov_required ov of None \<Rightarrow> True | Some v \<Rightarrow> required f = v) \<and>
     (case ov_restrictions ov of None \<Rightarrow> True | Some v \<Rightarrow> restrictions f = v) \<and>
     (name f = ''country'' \<or>
      (case ov_defaultValue ov of None \<Rightarrow> True | Some v \<Rightarrow> defaultValue f = v))"

text \<open>The overrides of a name apart from the default value.\<close>

definition static :: "override_dict \<Rightarrow> override_dict" where
  "static ov = ov\<lparr>ov_defaultValue := None\<rparr>"

text \<open>
  Two form descriptions have the same overrides when they differ at most in the default
  value recorded for \<^verbatim>\<open>country\<close>.
\<close>

definition same_overrides :: "form_desc \<Rightarrow> form_desc \<Rightarrow> bool" where
  "same_overrides fd fd' \<longleftrightarrow>
     (\<forall>n. static (field_overrides fd' n) = static (field_overrides fd n)
          \<and> (n = ''country'' \<or> field_overrides fd' n = field_overrides fd n))"

text \<open>
  \<open>extends fd fd'\<close>: \<open>fd'\<close> has the overrides of \<open>fd\<close> and its fields, followed by
  fields that conform to the overrides. \<open>present n r fd fd'\<close>: \<open>fd'\<close> has a field named
  \<open>n\<close> whose required flag is the one overridden in \<open>fd\<close>, or \<open>r\<close> when none is.
  \<open>adds\<close> is both.
\<close>

definition extends :: "form_desc \<Rightarrow> form_desc \<Rightarrow> bool" where
  "extends fd fd' \<longleftrightarrow>
     same_overrides fd fd' \<and>
     (\<exists>new. form_fields fd' = form_fields fd @ new
        \<and> (\<forall>f \<in> set new. conforms (field_overrides fd' (name f)) f))"

definition present :: "string \<Rightarrow> bool \<Rightarrow> form_desc \<Rightarrow> form_desc \<Rightarrow> bool" where
  "present n r fd fd' \<longleftrightarrow>
     (\<exists>f \<in> set (form_fields fd'). name f = n
        \<and> required f = (case ov_required (field_overrides fd n) of None \<Rightarrow> r | Some b \<Rightarrow> b))"

definition adds :: "string \<Rightarrow> bool \<Rightarrow> form_desc \<Rightarrow> form_desc \<Rightarrow> bool" where
  "adds n r fd fd' \<longleftrightarrow>
     extends fd fd' \<and>
     (\<exists>f \<in> set (form_fields fd'). name f = n
        \<and> required f = (case ov_required (field_overrides fd n) of None \<Rightarrow> r | Some b \<Rightarrow> b))"

text \<open>The form description with which \<^verbatim>\<open>get\<close> starts adding fields (lines 248-249).\<close>

definition initial_form :: "environment \<Rightarrow> request \<Rightarrow> form_desc" where
  "initial_form env request =
     apply_third_party_auth_overrides env request
       (FormDescription ''post'' (reverse env ''user_api_registration''))"

text \<open>The overrides of lines 965-970, and those of the password field (lines 973-981).\<close>

definition hidden_override :: "override_dict \<Rightarrow> bool" where
  "hidden_override ov \<longleftrightarrow>
     ov_type ov = Some ''hidden'' \<and> ov_label ov = Some '''' \<and> ov_instructions ov = Some ''''"

definition password_override :: override_dict where
  "password_override =
     \<lparr>ov_label = Some '''', ov_type = Some ''hidden'', ov_defaultValue = Some (JStr ''''),
      ov_instructions = Some '''', ov_required = Some False, ov_restrictions = Some []\<rparr>"

text \<open>
  The default value overridden for \<^verbatim>\<open>country\<close> is none on which \<^verbatim>\<open>.upper()\<close> fails.
\<close>

definition country_default_ok :: "form_desc \<Rightarrow> bool" where
  "country_default_ok fd \<longleftrightarrow>
     ov_defaultValue (field_overrides fd ''country'') \<noteq> Some (JBool True)"

section \<open>Sample inputs\<close>

text \<open>Concrete configurations, requests and collaborators on which the definitions are run.\<close>

definition bogus_city_cfg :: configuration where
  "bogus_city_cfg =
     \<lparr>site_REGISTRATION_EXTRA_FIELDS = None,
      REGISTRATION_EXTRA_FIELDS = [''city'' \<mapsto> ''mandatory''],
      site_REGISTRATION_FIELD_ORDER = None,
      REGISTRATION_FIELD_ORDER = None\<rparr>"

definition unknown_key_cfg :: configuration where
  "unknown_key_cfg =
     \<lparr>site_REGISTRATION_EXTRA_FIELDS = None,
      REGISTRATION_EXTRA_FIELDS = [''favorite_color'' \<mapsto> ''mandatory''],
      site_REGISTRATION_FIELD_ORDER = None,
      REGISTRATION_FIELD_ORDER = None\<rparr>"

definition sample_accounts :: accounts where
  "sample_accounts =
     \<lparr>EMAIL_MIN_LENGTH = 3, EMAIL_MAX_LENGTH = 254, NAME_MAX_LENGTH = 255,
      USERNAME_MIN_LENGTH = 2, USERNAME_MAX_LENGTH = 30,
      PASSWORD_MIN_LENGTH = 2, PASSWORD_MAX_LENGTH = 75,
      REQUIRED_FIELD_CONFIRM_EMAIL_MSG = ''The email addresses do not match.'',
      REQUIRED_FIELD_LEVEL_OF_EDUCATION_MSG = ''Select your level of education.'',
      REQUIRED_FIELD_MAILING_ADDRESS_MSG = ''Enter your mailing address.'',
      REQUIRED_FIELD_GOALS_MSG = ''Tell us your goals.'',
      REQUIRED_FIELD_CITY_MSG = ''Enter your city.'',
      REQUIRED_FIELD_COUNTRY_MSG = ''Select your country.'',
      EMAIL_CONFLICT_MSG = ''It looks like {email_address} belongs to an existing account.'',
      USERNAME_CONFLICT_MSG = ''It looks like {username} belongs to an existing account.''\<rparr>"

definition no_conflicts :: "string option \<Rightarrow> string option \<Rightarrow> string list" where
  "no_conflicts username email = []"

definition bob_exists :: "string option \<Rightarrow> string option \<Rightarrow> string list" where
  "bob_exists username email =
     (if email = Some ''bob@example.com'' then [''email''] else []) @
     (if username = Some ''bob'' then [''username''] else [])"

definition create_ok :: "post_data \<Rightarrow> create_account_outcome" where
  "create_ok d = Created (py_str (d ''username''))"

definition create_invalid :: "post_data \<Rightarrow> create_account_outcome" where
  "create_invalid d =
     RaiseValidationError (FieldErrors
       [''username'' \<mapsto> [''Username is too short.'', ''Username is not valid.'']])"

definition empty_honor_code_data :: post_data where
  "empty_honor_code_data =
     [''email'' \<mapsto> ''ann@example.com'', ''username'' \<mapsto> ''ann'', ''honor_code'' \<mapsto> '''']"

definition honor_code_data :: post_data where
  "honor_code_data =
     [''email'' \<mapsto> ''ann@example.com'', ''username'' \<mapsto> ''ann'', ''honor_code'' \<mapsto> ''true'']"

definition bob_data :: post_data where
  "bob_data = [''email'' \<mapsto> ''bob@example.com'', ''username'' \<mapsto> ''bobby'']"

definition sample_course_org :: "string \<Rightarrow> string option" where
  "sample_course_org s = (if s = ''course-v1:edX+DemoX+2017'' then Some ''edX'' else None)"

definition sample_missing_message :: "string list \<Rightarrow> string" where
  "sample_missing_message missing_params =
     ''Missing POST parameters: '' @ concat (map (\<lambda>p. p @ '' '') missing_params)"

definition sample_optin_request :: "string \<Rightarrow> string \<Rightarrow> optin_request" where
  "sample_optin_request cid v =
     \<lparr>data = [''course_id'' \<mapsto> cid, ''email_opt_in'' \<mapsto> v], user = ''alice''\<rparr>"

definition sample_prefs :: optin_prefs where
  "sample_prefs = [(''alice'', ''edX'') \<mapsto> True]"

text \<open>
  A site with the default settings, a request in a running third-party-auth pipeline whose
  provider skips the registration form in an enterprise context and supplies only the
  email, and the response that \<^verbatim>\<open>get\<close> gives to it.
\<close>

definition default_cfg :: configuration where
  "default_cfg =
     \<lparr>site_REGISTRATION_EXTRA_FIELDS = None,
      REGISTRATION_EXTRA_FIELDS = Map.empty,
      site_REGISTRATION_FIELD_ORDER = None,
      REGISTRATION_FIELD_ORDER = None\<rparr>"

definition default_view :: registration_view where
  "default_view =
     \<lparr>extra_fields_setting = [''honor_code'' \<mapsto> ''required''],
      field_order = DEFAULT_FIELDS @ EXTRA_FIELDS\<rparr>"

definition sample_marketing_link :: "string \<Rightarrow> string" where
  "sample_marketing_link nm = ''/'' @ lower nm"

definition sample_reverse :: "string \<Rightarrow> string" where
  "sample_reverse nm = ''/user_api/v1/registration''"

definition tpa_env :: environment where
  "tpa_env =
     \<lparr>PLATFORM_NAME = ''edX'',
      marketing_link = sample_marketing_link,
      reverse = sample_reverse,
      accounts_consts = sample_accounts,
      LEVEL_OF_EDUCATION_CHOICES = [(''b'', ''Bachelor'')],
      GENDER_CHOICES = [(''f'', ''Female''), (''m'', ''Male'')],
      VALID_YEARS = [2017, 2016],
      countries = [(''US'', ''United States'')],
      FIELD_TYPE_MAP = [''CharField'' \<mapsto> ''text''],
      third_party_auth_is_enabled = True,
      registration_extension_form = None\<rparr>"

definition sample_kwargs :: pipeline_kwargs where
  "sample_kwargs = Map.empty"

definition email_only_data :: "pipeline_kwargs \<Rightarrow> (string \<rightharpoonup> jvalue)" where
  "email_only_data kwargs = [''email'' \<mapsto> JStr ''ann@example.com'']"

definition sample_provider :: provider where
  "sample_provider =
     \<lparr>provider_name = ''SAML'', skip_registration_form = True,
      get_register_form_data = email_only_data\<rparr>"

definition tpa_request :: request where
  "tpa_request =
     \<lparr>running_pipeline = Some sample_kwargs, current_provider = Some sample_provider,
      enterprise_customer = True\<rparr>"

definition sample_fields :: "field_dict list" where
  "sample_fields =
     [\<lparr>name = ''social_auth_provider'', label = '''', field_type = ''hidden'',
       defaultValue = JStr ''SAML'', placeholder = JStr '''', instructions = '''',
       required = False, restrictions = [], options = None,
       include_default_option = False, errorMessages = [],
       supplementalLink = '''', supplementalText = ''''\<rparr>,
      \<lparr>name = ''email'', label = '''', field_type = ''hidden'',
       defaultValue = JStr ''ann@example.com'', placeholder = JStr ''username@domain.com'',
       instructions = '''', required = True,
       restrictions = [(''min_length'', 3), (''max_length'', 254)], options = None,
       include_default_option = False, errorMessages = [],
       supplementalLink = '''', supplementalText = ''''\<rparr>,
      \<lparr>name = ''name'', label = ''Full Name'', field_type = ''text'',
       defaultValue = JStr '''', placeholder = JStr ''Jane Q. Learner'',
       instructions = ''This name will be used on any certificates that you earn.'',
       required = True, restrictions = [(''max_length'', 255)], options = None,
       include_default_option = False, errorMessages = [],
       supplementalLink = '''', supplementalText = ''''\<rparr>,
      \<lparr>name = ''username'', label = ''Public Username'', field_type = ''text'',
       defaultValue = JStr '''', placeholder = JStr ''Jane_Q_Learner'',
       instructions =
         ''The name that will identify you in your courses. It cannot be changed later.'',
       required = True, restrictions = [(''min_length'', 2), (''max_length'', 30)],
       options = None, include_default_option = False, errorMessages = [],
       supplementalLink = '''', supplementalText = ''''\<rparr>,
      \<lparr>name = ''password'', label = '''', field_type = ''hidden'',
       defaultValue = JStr '''', placeholder = JStr '''', instructions = '''',
       required = False, restrictions = [], options = None,
       include_default_option = False, errorMessages = [],
       supplementalLink = '''', supplementalText = ''''\<rparr>,
      \<lparr>name = ''honor_code'',
       label = ''I agree to the edX Terms of Service and Honor Code'',
       field_type = ''checkbox'', defaultValue = JBool False, placeholder = JStr '''',
       instructions = '''', required = True, restrictions = [], options = None,
       include_default_option = False,
       errorMessages =
         [(''required'', ''You must agree to the edX Terms of Service and Honor Code'')],
       supplementalLink = ''/honor'',
       supplementalText = ''Review the Terms of Service and Honor Code''\<rparr>]"

definition sample_response :: http_response where
  "sample_response =
     HttpResponse 200 (JsonForm ''post'' ''/user_api/v1/registration'' sample_fields)
       ''application/json''"

section \<open>Properties of the constructor\<close>

lemma check_extra_fields_None:
  "check_extra_fields setting fs = None \<longleftrightarrow>
     (\<forall>f \<in> set fs. dict_get setting f ''hidden'' \<in> set [''required'', ''optional'', ''hidden''])"
  by (induction fs) auto

lemma check_extra_fields_Some:
  "check_extra_fields setting fs = Some e \<Longrightarrow>
     e = ImproperlyConfigured
        ''Setting REGISTRATION_EXTRA_FIELDS values must be either required, optional, or hidden.''"
  by (induction fs) (auto split: if_splits)

lemma honor_code_default_valid:
  "dict_get (m(''honor_code'' \<mapsto> dict_get m ''honor_code'' ''required'')) f ''hidden''
     \<in> set [''required'', ''optional'', ''hidden'']
   \<longleftrightarrow> (case m f of None \<Rightarrow> True | Some v \<Rightarrow> v \<in> set [''required'', ''optional'', ''hidden''])"
  by (auto simp: dict_get_def split: option.splits)

text \<open>
  The constructor fails exactly when the mapping it reads gives a field of
  \<open>EXTRA_FIELDS\<close> a value that is none of the three visibility values.
\<close>

lemma init_fails_iff:
  "isl (RegistrationView_init cfg) \<longleftrightarrow>
     (\<exists>f \<in> set EXTRA_FIELDS. \<exists>v. configured_extra_fields cfg f = Some v
          \<and> v \<notin> set [''required'', ''optional'', ''hidden''])"
proof -
  let ?m = "configured_extra_fields cfg"
  let ?s = "?m(''honor_code'' \<mapsto> dict_get ?m ''honor_code'' ''required'')"
  have "isl (RegistrationView_init cfg) \<longleftrightarrow> check_extra_fields ?s EXTRA_FIELDS \<noteq> None"
    by (simp add: RegistrationView_init_def Let_def split: option.splits)
  also have "\<dots> \<longleftrightarrow> \<not> (\<forall>f \<in> set EXTRA_FIELDS.
      dict_get ?s f ''hidden'' \<in> set [''required'', ''optional'', ''hidden''])"
    by (simp only: check_extra_fields_None)
  also have "\<dots> \<longleftrightarrow> \<not> (\<forall>f \<in> set EXTRA_FIELDS.
      (case ?m f of None \<Rightarrow> True | Some v \<Rightarrow> v \<in> set [''required'', ''optional'', ''hidden'']))"
    by (simp only: honor_code_default_valid)
  also have "\<dots> \<longleftrightarrow> (\<exists>f \<in> set EXTRA_FIELDS. \<exists>v. ?m f = Some v
          \<and> v \<notin> set [''required'', ''optional'', ''hidden''])"
    by (auto split: option.splits)
  finally show ?thesis .
qed

lemma init_error:
  "RegistrationView_init cfg = Inl e \<Longrightarrow>
     e = ImproperlyConfigured
        ''Setting REGISTRATION_EXTRA_FIELDS values must be either required, optional, or hidden.''"
  by (auto simp: RegistrationView_init_def Let_def split: option.splits
      dest: check_extra_fields_Some)

text \<open>
  Claim C2, as stated: a value outside the three visibility values under any key of the
  configured mapping makes the constructor fail. It does not: the key
  \<^verbatim>\<open>favorite_color\<close> is no field of \<open>EXTRA_FIELDS\<close>, its value \<^verbatim>\<open>mandatory\<close> is never
  looked at, and the constructor returns a view.
\<close>

theorem C2_unknown_key_counterexample:
  "configured_extra_fields unknown_key_cfg ''favorite_color'' = Some ''mandatory''
   \<and> ''mandatory'' \<notin> set [''required'', ''optional'', ''hidden'']
   \<and> \<not> isl (RegistrationView_init unknown_key_cfg)"
proof -
  have m: "configured_extra_fields unknown_key_cfg
             = [''favorite_color'' \<mapsto> ''mandatory'']"
    by (simp add: configured_extra_fields_def unknown_key_cfg_def)
  have "\<not> isl (RegistrationView_init unknown_key_cfg)"
    unfolding init_fails_iff m by (simp add: EXTRA_FIELDS_def)
  then show ?thesis using m by simp
qed

text \<open>
  Claim C2, amended: when the mapping that the constructor reads (the site configuration's
  when that is not empty, else the Django setting's) gives a field of \<open>EXTRA_FIELDS\<close> a
  value that is none of "required", "optional" and "hidden", the constructor raises
  \<^verbatim>\<open>ImproperlyConfigured\<close>.
\<close>

theorem C2_invalid_extra_field_value:
  assumes "f \<in> set EXTRA_FIELDS" and "configured_extra_fields cfg f = Some v"
    and "v \<notin> set [''required'', ''optional'', ''hidden'']"
  shows "RegistrationView_init cfg =
     Inl (ImproperlyConfigured
       ''Setting REGISTRATION_EXTRA_FIELDS values must be either required, optional, or hidden.'')"
proof -
  have "isl (RegistrationView_init cfg)"
    using assms init_fails_iff by blast
  then obtain e where "RegistrationView_init cfg = Inl e"
    by (cases "RegistrationView_init cfg") auto
  then show ?thesis using init_error by blast
qed

theorem C2_invalid_extra_field_value_witness:
  "''city'' \<in> set EXTRA_FIELDS
   \<and> configured_extra_fields bogus_city_cfg ''city'' = Some ''mandatory''
   \<and> ''mandatory'' \<notin> set [''required'', ''optional'', ''hidden'']
   \<and> RegistrationView_init bogus_city_cfg =
       Inl (ImproperlyConfigured
         ''Setting REGISTRATION_EXTRA_FIELDS values must be either required, optional, or hidden.'')"
proof -
  have a: "''city'' \<in> set EXTRA_FIELDS"
    by (simp add: EXTRA_FIELDS_def)
  have b: "configured_extra_fields bogus_city_cfg ''city'' = Some ''mandatory''"
    by (simp add: configured_extra_fields_def bogus_city_cfg_def)
  have c: "''mandatory'' \<notin> set [''required'', ''optional'', ''hidden'']"
    by simp
  show ?thesis
    using a b c C2_invalid_extra_field_value [of "''city''" bogus_city_cfg "''mandatory''"]
    by blast
qed

section \<open>Properties of the registration form\<close>

lemma static_eq_iff:
  "static a = static b \<longleftrightarrow>
     ov_type a = ov_type b \<and> ov_label a = ov_label b \<and> ov_instructions a = ov_instructions b
     \<and> ov_required a = ov_required b \<and> ov_restrictions a = ov_restrictions b
     \<and> override_dict.more a = override_dict.more b"
  by (cases a, cases b) (auto simp: static_def)

lemma same_overrides_refl: "same_overrides fd fd"
  by (simp add: same_overrides_def)

lemma same_overrides_trans:
  "same_overrides a b \<Longrightarrow> same_overrides b c \<Longrightarrow> same_overrides a c"
  unfolding same_overrides_def by metis

lemma same_overrides_required:
  "same_overrides fd fd' \<Longrightarrow> ov_required (field_overrides fd' n) = ov_required (field_overrides fd n)"
  unfolding same_overrides_def static_eq_iff by blast

lemma conforms_same:
  assumes "same_overrides fd fd'"
  shows "conforms (field_overrides fd' (name f)) f \<longleftrightarrow> conforms (field_overrides fd (name f)) f"
proof (cases "name f = ''country''")
  case True
  from assms have "static (field_overrides fd' (name f)) = static (field_overrides fd (name f))"
    unfolding same_overrides_def by blast
  then show ?thesis using True by (simp add: conforms_def static_eq_iff)
next
  case False
  with assms have "field_overrides fd' (name f) = field_overrides fd (name f)"
    unfolding same_overrides_def by blast
  then show ?thesis by simp
qed

lemma extends_refl: "extends fd fd"
  by (simp add: extends_def same_overrides_refl)

lemma extends_trans:
  assumes "extends a b" and "extends b c"
  shows "extends a c"
proof -
  from assms(1) obtain n1 where 1: "same_overrides a b" "form_fields b = form_fields a @ n1"
    "\<forall>f \<in> set n1. conforms (field_overrides b (name f)) f"
    unfolding extends_def by blast
  from assms(2) obtain n2 where 2: "same_overrides b c" "form_fields c = form_fields b @ n2"
    "\<forall>f \<in> set n2. conforms (field_overrides c (name f)) f"
    unfolding extends_def by blast
  have "\<forall>f \<in> set (n1 @ n2). conforms (field_overrides c (name f)) f"
    using 1(3) 2(3) conforms_same [OF 2(1)] by auto
  moreover have "form_fields c = form_fields a @ (n1 @ n2)"
    using 1(2) 2(2) by simp
  ultimately show ?thesis
    unfolding extends_def using same_overrides_trans [OF 1(1) 2(1)] by blast
qed

lemma extends_fields: "extends fd fd' \<Longrightarrow> set (form_fields fd) \<subseteq> set (form_fields fd')"
  unfolding extends_def by auto

lemma conforms_apply_overrides: "conforms ov (apply_overrides ov kw)"
  by (simp add: conforms_def apply_overrides_def split: option.splits)

lemma name_apply_overrides [simp]: "name (apply_overrides ov kw) = name kw"
  by (simp add: apply_overrides_def)

lemma required_apply_overrides:
  "required (apply_overrides ov kw) = (case ov_required ov of None \<Rightarrow> required kw | Some b \<Rightarrow> b)"
  by (simp add: apply_overrides_def)

lemma add_field_adds: "adds (name kw) (required kw) fd (add_field fd kw)"
  unfolding adds_def extends_def
  by (simp add: add_field_def same_overrides_refl same_overrides_def
      conforms_apply_overrides required_apply_overrides)

lemma add_field_adds':
  "name kw = n \<Longrightarrow> required kw = r \<Longrightarrow> adds n r fd (add_field fd kw)"
  using add_field_adds by blast

lemma override_country_default_extends:
  "extends fd (override_field_properties fd ''country'' (no_overrides\<lparr>ov_defaultValue := Some v\<rparr>))"
  unfolding extends_def same_overrides_def
  by (simp add: override_field_properties_def update_overrides_def no_overrides_def static_def)

lemma override_country_required:
  "ov_required (field_overrides
      (override_field_properties fd ''country'' (no_overrides\<lparr>ov_defaultValue := Some v\<rparr>)) n)
   = ov_required (field_overrides fd n)"
  by (simp add: override_field_properties_def update_overrides_def no_overrides_def)

lemma adds_after_extends:
  assumes "extends a b" and "adds n r b c"
    and "ov_required (field_overrides b n) = ov_required (field_overrides a n)"
  shows "adds n r a c"
  using assms unfolding adds_def by (auto intro: extends_trans)

lemma add_country_field_cases:
  assumes "add_country_field env fd r = Inr fd'"
  shows "\<exists>kw. name kw = ''country'' \<and> required kw = r
           \<and> (fd' = add_field fd kw
              \<or> (\<exists>s. fd' = add_field (override_field_properties fd ''country''
                           (no_overrides\<lparr>ov_defaultValue := Some (JStr s)\<rparr>)) kw))"
proof -
  let ?kw = "(field_kwargs ''country'')
            \<lparr>label := ''Country'',
             field_type := ''select'',
             options := Some (countries env),
             include_default_option := True,
             required := r,
             errorMessages := [(''required'', REQUIRED_FIELD_COUNTRY_MSG (accounts_consts env))]\<rparr>"
  have kw: "name ?kw = ''country''" "required ?kw = r"
    by (simp_all add: field_kwargs_def)
  have "fd' = add_field fd ?kw \<or>
        (\<exists>s. fd' = add_field (override_field_properties fd ''country''
                 (no_overrides\<lparr>ov_defaultValue := Some (JStr s)\<rparr>)) ?kw)"
    using assms
    by (auto simp: add_country_field_def Let_def
        split: option.splits jvalue.splits bool.splits if_splits)
  with kw show ?thesis by blast
qed

lemma field_handlers_cases:
  assumes "field_handlers env self n fd r = Inr fd'"
  shows "\<exists>kw. name kw = n \<and> required kw = r
           \<and> (fd' = add_field fd kw
              \<or> (\<exists>s. fd' = add_field (override_field_properties fd ''country''
                           (no_overrides\<lparr>ov_defaultValue := Some (JStr s)\<rparr>)) kw))"
proof (cases "n = ''country''")
  case True
  then show ?thesis using assms add_country_field_cases by (simp add: field_handlers_def)
next
  case False
  have k: "\<And>m. name (field_kwargs m) = m" "\<And>m. required (field_kwargs m) = True"
    by (simp_all add: field_kwargs_def)
  have "\<exists>kw. name kw = n \<and> required kw = r \<and> fd' = add_field fd kw"
    using assms False
    by (auto simp: field_handlers_def add_email_field_def add_name_field_def
        add_username_field_def add_password_field_def add_confirm_email_field_def
        add_first_name_field_def add_last_name_field_def add_city_field_def
        add_state_field_def add_gender_field_def add_year_of_birth_field_def
        add_level_of_education_field_def add_company_field_def add_title_field_def
        add_mailing_address_field_def add_goals_field_def add_honor_code_field_def
        add_terms_of_service_field_def Let_def k
        split: if_splits intro!: exI)
  then show ?thesis by blast
qed

lemma field_handlers_adds:
  assumes "field_handlers env self n fd r = Inr fd'"
  shows "adds n r fd fd'"
proof -
  from field_handlers_cases [OF assms] obtain kw where kw: "name kw = n" "required kw = r"
    and c: "fd' = add_field fd kw
              \<or> (\<exists>s. fd' = add_field (override_field_properties fd ''country''
                           (no_overrides\<lparr>ov_defaultValue := Some (JStr s)\<rparr>)) kw)"
    by blast
  from c show ?thesis
  proof
    assume "fd' = add_field fd kw"
    then show ?thesis using add_field_adds' [OF kw] by simp
  next
    assume "\<exists>s. fd' = add_field (override_field_properties fd ''country''
                           (no_overrides\<lparr>ov_defaultValue := Some (JStr s)\<rparr>)) kw"
    then obtain s where "fd' = add_field (override_field_properties fd ''country''
                           (no_overrides\<lparr>ov_defaultValue := Some (JStr s)\<rparr>)) kw"
      by blast
    then show ?thesis
      using adds_after_extends [OF override_country_default_extends add_field_adds' [OF kw]
          override_country_required]
      by simp
  qed
qed

lemma field_handlers_country_default:
  assumes "field_handlers env self n fd r = Inr fd'" and "country_default_ok fd"
  shows "country_default_ok fd'"
  using field_handlers_cases [OF assms(1)] assms(2)
  by (auto simp: country_default_ok_def add_field_def override_field_properties_def
      update_overrides_def no_overrides_def)

lemma field_handlers_returns:
  assumes "n \<in> set (DEFAULT_FIELDS @ EXTRA_FIELDS)" and "country_default_ok fd"
  shows "\<exists>fd'. field_handlers env self n fd r = Inr fd'"
proof (cases "n = ''country''")
  case True
  have "\<exists>fd'. add_country_field env fd r = Inr fd'"
    using assms(2)
    by (auto simp: add_country_field_def country_default_ok_def Let_def
        split: option.splits jvalue.splits bool.splits)
  with True show ?thesis by (simp add: field_handlers_def)
next
  case False
  with assms(1) show ?thesis
    by (auto simp: field_handlers_def DEFAULT_FIELDS_def EXTRA_FIELDS_def)
qed

lemma adds_iff: "adds n r fd fd' \<longleftrightarrow> extends fd fd' \<and> present n r fd fd'"
  by (simp add: adds_def present_def)

lemma present_mono: "present n r fd0 fd1 \<Longrightarrow> extends fd1 fd2 \<Longrightarrow> present n r fd0 fd2"
  unfolding present_def using extends_fields by blast

lemma present_base: "extends fd0 fd1 \<Longrightarrow> present n r fd1 fd2 \<Longrightarrow> present n r fd0 fd2"
  unfolding present_def extends_def using same_overrides_required by auto

lemma add_default_fields_spec:
  "add_default_fields env self ns fd = Inr fd' \<Longrightarrow>
     extends fd fd' \<and> (\<forall>n \<in> set ns. present n True fd fd')"
proof (induction ns arbitrary: fd)
  case Nil
  then show ?case by (simp add: extends_refl)
next
  case (Cons a ns)
  from Cons.prems obtain fd1 where h: "field_handlers env self a fd True = Inr fd1"
    and r: "add_default_fields env self ns fd1 = Inr fd'"
    by (auto split: sum.splits)
  from field_handlers_adds [OF h] have a: "extends fd fd1" "present a True fd fd1"
    by (simp_all add: adds_iff)
  from Cons.IH [OF r] have b: "extends fd1 fd'" "\<forall>n \<in> set ns. present n True fd1 fd'"
    by simp_all
  show ?case
    using a b by (auto intro: extends_trans present_mono present_base)
qed

lemma add_extension_fields_spec:
  "add_extension_fields env custom_form items fd = Inr fd' \<Longrightarrow> extends fd fd'"
proof (induction items arbitrary: fd)
  case Nil
  then show ?case by (simp add: extends_refl)
next
  case (Cons a items)
  obtain field_name field where a: "a = (field_name, field)" by (cases a)
  from Cons.prems a obtain kw where
    r: "add_extension_fields env custom_form items (add_field fd kw) = Inr fd'"
    by (auto simp: Let_def split: if_splits)
  have "extends fd (add_field fd kw)"
    using add_field_adds [of kw fd] by (simp add: adds_iff)
  with Cons.IH [OF r] show ?case by (blast intro: extends_trans)
qed

lemma add_extra_fields_spec:
  "add_extra_fields env self ns fd = Inr fd' \<Longrightarrow>
     extends fd fd'
     \<and> (\<forall>n \<in> set ns. is_field_visible self n \<longrightarrow> present n (is_field_required self n) fd fd')"
proof (induction ns arbitrary: fd)
  case Nil
  then show ?case by (simp add: extends_refl)
next
  case (Cons a ns)
  show ?case
  proof (cases "is_field_visible self a")
    case True
    with Cons.prems obtain fd1 where
      h: "field_handlers env self a fd (is_field_required self a) = Inr fd1"
      and r: "add_extra_fields env self ns fd1 = Inr fd'"
      by (auto split: sum.splits)
    from field_handlers_adds [OF h]
    have a: "extends fd fd1" "present a (is_field_required self a) fd fd1"
      by (simp_all add: adds_iff)
    from Cons.IH [OF r] have b: "extends fd1 fd'"
      "\<forall>n \<in> set ns. is_field_visible self n \<longrightarrow> present n (is_field_required self n) fd1 fd'"
      by simp_all
    show ?thesis
      using a b by (auto intro: extends_trans present_mono present_base)
  next
    case False
    with Cons.prems have r: "add_extra_fields env self ns fd = Inr fd'" by simp
    from Cons.IH [OF r] False show ?thesis by auto
  qed
qed

lemma add_ordered_fields_spec:
  "add_ordered_fields env self ns fd = Inr fd' \<Longrightarrow>
     extends fd fd'
     \<and> (\<forall>n \<in> set ns. n \<in> set DEFAULT_FIELDS \<longrightarrow> present n True fd fd')
     \<and> (\<forall>n \<in> set ns. n \<notin> set DEFAULT_FIELDS \<and> is_field_visible self n
           \<longrightarrow> present n (is_field_required self n) fd fd')"
proof (induction ns arbitrary: fd)
  case Nil
  then show ?case by (simp add: extends_refl)
next
  case (Cons a ns)
  consider (dflt) "a \<in> set DEFAULT_FIELDS"
    | (vis) "a \<notin> set DEFAULT_FIELDS" "is_field_visible self a"
    | (skip) "a \<notin> set DEFAULT_FIELDS" "\<not> is_field_visible self a"
    by blast
  then show ?case
  proof cases
    case dflt
    with Cons.prems obtain fd1 where h: "field_handlers env self a fd True = Inr fd1"
      and r: "add_ordered_fields env self ns fd1 = Inr fd'"
      by (auto split: sum.splits)
    from field_handlers_adds [OF h] have a: "extends fd fd1" "present a True fd fd1"
      by (simp_all add: adds_iff)
    from Cons.IH [OF r] have b: "extends fd1 fd'"
      "\<forall>n \<in> set ns. n \<in> set DEFAULT_FIELDS \<longrightarrow> present n True fd1 fd'"
      "\<forall>n \<in> set ns. n \<notin> set DEFAULT_FIELDS \<and> is_field_visible self n
           \<longrightarrow> present n (is_field_required self n) fd1 fd'"
      by simp_all
    show ?thesis
      using a b dflt by (auto intro: extends_trans present_mono present_base)
  next
    case vis
    with Cons.prems obtain fd1 where
      h: "field_handlers env self a fd (is_field_required self a) = Inr fd1"
      and r: "add_ordered_fields env self ns fd1 = Inr fd'"
      by (auto split: sum.splits)
    from field_handlers_adds [OF h]
    have a: "extends fd fd1" "present a (is_field_required self a) fd fd1"
      by (simp_all add: adds_iff)
    from Cons.IH [OF r] have b: "extends fd1 fd'"
      "\<forall>n \<in> set ns. n \<in> set DEFAULT_FIELDS \<longrightarrow> present n True fd1 fd'"
      "\<forall>n \<in> set ns. n \<notin> set DEFAULT_FIELDS \<and> is_field_visible self n
           \<longrightarrow> present n (is_field_required self n) fd1 fd'"
      by simp_all
    show ?thesis
      using a b vis by (auto intro: extends_trans present_mono present_base)
  next
    case skip
    with Cons.prems have r: "add_ordered_fields env self ns fd = Inr fd'" by simp
    from Cons.IH [OF r] skip show ?thesis by auto
  qed
qed

lemma extra_not_default: "n \<in> set EXTRA_FIELDS \<Longrightarrow> n \<notin> set DEFAULT_FIELDS"
  by (auto simp: EXTRA_FIELDS_def DEFAULT_FIELDS_def)

lemma registration_form_spec:
  assumes "registration_form env self request = Inr fd"
    and "set (field_order self) = set (DEFAULT_FIELDS @ EXTRA_FIELDS)"
  shows "extends (initial_form env request) fd"
    and "\<forall>n \<in> set DEFAULT_FIELDS. present n True (initial_form env request) fd"
    and "\<forall>n \<in> set EXTRA_FIELDS. is_field_visible self n
           \<longrightarrow> present n (is_field_required self n) (initial_form env request) fd"
proof -
  let ?fd0 = "initial_form env request"
  have "extends ?fd0 fd
     \<and> (\<forall>n \<in> set DEFAULT_FIELDS. present n True ?fd0 fd)
     \<and> (\<forall>n \<in> set EXTRA_FIELDS. is_field_visible self n
           \<longrightarrow> present n (is_field_required self n) ?fd0 fd)"
  proof (cases "registration_extension_form env")
    case None
    with assms(1) have "add_ordered_fields env self (field_order self) ?fd0 = Inr fd"
      by (simp add: registration_form_def initial_form_def Let_def)
    from add_ordered_fields_spec [OF this] assms(2) extra_not_default
    show ?thesis by auto
  next
    case (Some custom_form)
    with assms(1) obtain fd1 fd2 where
      1: "add_default_fields env self DEFAULT_FIELDS ?fd0 = Inr fd1"
      and 2: "add_extension_fields env custom_form (ext_fields custom_form) fd1 = Inr fd2"
      and 3: "add_extra_fields env self EXTRA_FIELDS fd2 = Inr fd"
      by (auto simp: registration_form_def initial_form_def Let_def split: sum.splits)
    from add_default_fields_spec [OF 1]
    have a: "extends ?fd0 fd1" "\<forall>n \<in> set DEFAULT_FIELDS. present n True ?fd0 fd1"
      by simp_all
    from add_extension_fields_spec [OF 2] have b: "extends fd1 fd2" .
    from add_extra_fields_spec [OF 3]
    have c: "extends fd2 fd"
      "\<forall>n \<in> set EXTRA_FIELDS. is_field_visible self n
           \<longrightarrow> present n (is_field_required self n) fd2 fd"
      by simp_all
    have e2: "extends ?fd0 fd2" using a(1) b by (rule extends_trans)
    have e3: "extends fd1 fd" using b c(1) by (rule extends_trans)
    show ?thesis
      using a c e2 e3 by (auto intro: extends_trans present_mono present_base)
  qed
  then show "extends (initial_form env request) fd"
    and "\<forall>n \<in> set DEFAULT_FIELDS. present n True (initial_form env request) fd"
    and "\<forall>n \<in> set EXTRA_FIELDS. is_field_visible self n
           \<longrightarrow> present n (is_field_required self n) (initial_form env request) fd"
    by simp_all
qed

lemma registration_form_extends:
  assumes "registration_form env self request = Inr fd"
  shows "extends (initial_form env request) fd"
proof (cases "registration_extension_form env")
  case None
  with assms have "add_ordered_fields env self (field_order self) (initial_form env request) = Inr fd"
    by (simp add: registration_form_def initial_form_def Let_def)
  from add_ordered_fields_spec [OF this] show ?thesis by simp
next
  case (Some custom_form)
  with assms obtain fd1 fd2 where
    1: "add_default_fields env self DEFAULT_FIELDS (initial_form env request) = Inr fd1"
    and 2: "add_extension_fields env custom_form (ext_fields custom_form) fd1 = Inr fd2"
    and 3: "add_extra_fields env self EXTRA_FIELDS fd2 = Inr fd"
    by (auto simp: registration_form_def initial_form_def Let_def split: sum.splits)
  from add_default_fields_spec [OF 1] add_extension_fields_spec [OF 2]
    add_extra_fields_spec [OF 3]
  show ?thesis by (blast intro: extends_trans)
qed

lemma opf_fields [simp]:
  "form_fields (override_provider_fields pdata hide ns fd) = form_fields fd"
  by (induction ns arbitrary: fd)
    (auto simp: override_field_properties_def Let_def split: option.splits)

lemma opf_required [simp]:
  "ov_required (field_overrides (override_provider_fields pdata hide ns fd) n)
     = ov_required (field_overrides fd n)"
  by (induction ns arbitrary: fd)
    (auto simp: override_field_properties_def update_overrides_def no_overrides_def Let_def
      split: option.splits)

lemma opf_keeps_hidden:
  "hidden_override (field_overrides fd n) \<Longrightarrow>
     hidden_override (field_overrides (override_provider_fields pdata hide ns fd) n)"
proof (induction ns arbitrary: fd)
  case Nil
  then show ?case by simp
next
  case (Cons a ns)
  show ?case
  proof (cases "pdata a")
    case None
    then show ?thesis using Cons by simp
  next
    case (Some v)
    let ?fd1 = "override_field_properties fd a (no_overrides\<lparr>ov_defaultValue := Some v\<rparr>)"
    let ?fd2 = "(if a \<notin> set [''terms_of_service'', ''honor_code''] \<and> truthy v \<and> hide
                 then override_field_properties ?fd1 a
                        (no_overrides\<lparr>ov_type := Some ''hidden'', ov_label := Some '''',
                           ov_instructions := Some ''''\<rparr>)
                 else ?fd1)"
    have "hidden_override (field_overrides ?fd2 n)"
      using Cons.prems
      by (auto simp: hidden_override_def override_field_properties_def update_overrides_def
          no_overrides_def)
    from Cons.IH [OF this] Some show ?thesis by (simp add: Let_def)
  qed
qed

lemma opf_hides:
  assumes "pdata n = Some v" and "truthy v" and "hide"
    and "n \<notin> set [''terms_of_service'', ''honor_code'']"
  shows "n \<in> set ns \<Longrightarrow>
     hidden_override (field_overrides (override_provider_fields pdata hide ns fd) n)"
proof (induction ns arbitrary: fd)
  case Nil
  then show ?case by simp
next
  case (Cons a ns)
  show ?case
  proof (cases "a = n")
    case True
    let ?fd1 = "override_field_properties fd n (no_overrides\<lparr>ov_defaultValue := Some v\<rparr>)"
    let ?fd2 = "override_field_properties ?fd1 n
                  (no_overrides\<lparr>ov_type := Some ''hidden'', ov_label := Some '''',
                     ov_instructions := Some ''''\<rparr>)"
    have "hidden_override (field_overrides ?fd2 n)"
      by (simp add: hidden_override_def override_field_properties_def update_overrides_def
          no_overrides_def)
    from opf_keeps_hidden [OF this] True assms show ?thesis by (simp add: Let_def)
  next
    case False
    with Cons.prems have "n \<in> set ns" by simp
    from Cons.IH [OF this] show ?thesis
      by (cases "pdata a") (simp_all add: Let_def)
  qed
qed

lemma conforms_hidden:
  "conforms ov f \<Longrightarrow> hidden_override ov \<Longrightarrow>
     field_type f = ''hidden'' \<and> label f = '''' \<and> instructions f = ''''"
  by (simp add: conforms_def hidden_override_def)

lemma initial_form_active:
  assumes "third_party_auth_is_enabled env" and "running_pipeline request = Some kwargs"
    and "current_provider request = Some prov"
  shows "field_overrides (initial_form env request) ''password'' = password_override"
    and "n \<noteq> ''password'' \<Longrightarrow>
           field_overrides (initial_form env request) n =
           field_overrides (override_provider_fields (get_register_form_data prov kwargs)
              (skip_registration_form prov \<and> enterprise_customer request)
              (DEFAULT_FIELDS @ EXTRA_FIELDS)
              (FormDescription ''post'' (reverse env ''user_api_registration''))) n"
    and "\<forall>f \<in> set (form_fields (initial_form env request)).
           conforms (field_overrides (initial_form env request) (name f)) f"
  using assms
  by (simp_all add: initial_form_def apply_third_party_auth_overrides_def Let_def
      add_field_def override_field_properties_def update_overrides_def no_overrides_def
      password_override_def conforms_apply_overrides FormDescription_def)

lemma initial_form_inactive:
  assumes "\<not> (third_party_auth_is_enabled env \<and> running_pipeline request \<noteq> None
             \<and> current_provider request \<noteq> None)"
  shows "initial_form env request = FormDescription ''post'' (reverse env ''user_api_registration'')"
  using assms
  by (auto simp: initial_form_def apply_third_party_auth_overrides_def split: option.splits)

lemma initial_form_well_formed:
  "\<forall>f \<in> set (form_fields (initial_form env request)).
     conforms (field_overrides (initial_form env request) (name f)) f"
proof (cases "third_party_auth_is_enabled env \<and> running_pipeline request \<noteq> None
             \<and> current_provider request \<noteq> None")
  case True
  then show ?thesis using initial_form_active(3) by blast
next
  case False
  then show ?thesis by (simp add: initial_form_inactive FormDescription_def)
qed

lemma initial_form_required:
  "ov_required (field_overrides (initial_form env request) n) =
     (if n = ''password'' \<and> third_party_auth_is_enabled env \<and> running_pipeline request \<noteq> None
          \<and> current_provider request \<noteq> None
      then Some False else None)"
proof (cases "third_party_auth_is_enabled env \<and> running_pipeline request \<noteq> None
             \<and> current_provider request \<noteq> None")
  case True
  then obtain kwargs prov where a: "third_party_auth_is_enabled env"
    "running_pipeline request = Some kwargs" "current_provider request = Some prov"
    by auto
  show ?thesis
  proof (cases "n = ''password''")
    case True
    then show ?thesis using initial_form_active(1) [OF a] a by (simp add: password_override_def)
  next
    case False
    then show ?thesis
      using initial_form_active(2) [OF a False]
      by (simp add: FormDescription_def no_overrides_def)
  qed
next
  case False
  then show ?thesis
    by (auto simp: initial_form_inactive FormDescription_def no_overrides_def)
qed

lemma form_conforms:
  assumes "registration_form env self request = Inr fd"
    and "f \<in> set (form_fields fd)"
  shows "conforms (field_overrides (initial_form env request) (name f)) f"
proof -
  let ?fd0 = "initial_form env request"
  from registration_form_extends [OF assms(1)] obtain new where
    s: "same_overrides ?fd0 fd" and n: "form_fields fd = form_fields ?fd0 @ new"
    and c: "\<forall>f \<in> set new. conforms (field_overrides fd (name f)) f"
    unfolding extends_def by blast
  from assms(2) n have "f \<in> set (form_fields ?fd0) \<or> f \<in> set new" by auto
  then show ?thesis
    using initial_form_well_formed c conforms_same [OF s] by blast
qed

lemma init_field_order:
  "RegistrationView_init cfg = Inr self \<Longrightarrow>
     set (field_order self) = set (DEFAULT_FIELDS @ EXTRA_FIELDS)"
  by (auto simp: RegistrationView_init_def Let_def split: option.splits if_splits)

lemma init_honor_code:
  "RegistrationView_init cfg = Inr self \<Longrightarrow>
     extra_fields_setting self ''honor_code'' =
       Some (dict_get (configured_extra_fields cfg) ''honor_code'' ''required'')"
  by (auto simp: RegistrationView_init_def Let_def split: option.splits if_splits)

lemma get_form:
  "RegistrationView_get env self request = Inr resp \<Longrightarrow>
     \<exists>fd. registration_form env self request = Inr fd
        \<and> resp = HttpResponse 200 (JsonForm (http_method fd) (submit_url fd) (form_fields fd))
                   ''application/json''"
  by (auto simp: RegistrationView_get_def to_json_def split: sum.splits)

lemma add_ordered_fields_returns:
  "set ns \<subseteq> set (DEFAULT_FIELDS @ EXTRA_FIELDS) \<Longrightarrow> country_default_ok fd \<Longrightarrow>
     \<exists>fd'. add_ordered_fields env self ns fd = Inr fd'"
proof (induction ns arbitrary: fd)
  case Nil
  then show ?case by simp
next
  case (Cons a ns)
  from Cons.prems have a: "a \<in> set (DEFAULT_FIELDS @ EXTRA_FIELDS)"
    and ns: "set ns \<subseteq> set (DEFAULT_FIELDS @ EXTRA_FIELDS)" by auto
  have step: "\<exists>fd'. add_ordered_fields env self ns fd1 = Inr fd'"
    if "field_handlers env self a fd r = Inr fd1" for r fd1
    using Cons.IH [OF ns field_handlers_country_default [OF that Cons.prems(2)]] .
  show ?case
  proof (cases "a \<in> set DEFAULT_FIELDS \<or> is_field_visible self a")
    case True
    obtain r where r: "r = (if a \<in> set DEFAULT_FIELDS then True else is_field_required self a)"
      by simp
    from field_handlers_returns [OF a Cons.prems(2)] obtain fd1 where
      h: "field_handlers env self a fd r = Inr fd1" by blast
    from step [OF h] obtain fd' where "add_ordered_fields env self ns fd1 = Inr fd'" by blast
    with h r True show ?thesis by auto
  next
    case False
    with Cons.IH [OF ns Cons.prems(2)] show ?thesis by simp
  qed
qed

lemma opf_default:
  "ov_defaultValue (field_overrides (override_provider_fields pdata hide ns fd) n) =
     (if n \<in> set ns \<and> pdata n \<noteq> None then pdata n
      else ov_defaultValue (field_overrides fd n))"
proof (induction ns arbitrary: fd)
  case Nil
  then show ?case by simp
next
  case (Cons a ns)
  show ?case
    by (cases "pdata a")
      (auto simp: Cons.IH Let_def override_field_properties_def update_overrides_def
        no_overrides_def)
qed

lemma initial_form_country_default:
  assumes "\<forall>kwargs prov. running_pipeline request = Some kwargs
              \<and> current_provider request = Some prov
              \<longrightarrow> get_register_form_data prov kwargs ''country'' \<noteq> Some (JBool True)"
  shows "country_default_ok (initial_form env request)"
proof (cases "third_party_auth_is_enabled env \<and> running_pipeline request \<noteq> None
             \<and> current_provider request \<noteq> None")
  case True
  then obtain kwargs prov where a: "third_party_auth_is_enabled env"
    "running_pipeline request = Some kwargs" "current_provider request = Some prov"
    by auto
  have "''country'' \<noteq> ''password''" by simp
  from initial_form_active(2) [OF a this] assms a(2,3)
  show ?thesis
    by (auto simp: country_default_ok_def opf_default FormDescription_def no_overrides_def)
next
  case False
  then show ?thesis
    by (simp add: initial_form_inactive country_default_ok_def FormDescription_def
        no_overrides_def)
qed

text \<open>
  Without an extension form \<^verbatim>\<open>get\<close> returns a form for every view that the constructor
  builds, unless the provider gives \<^verbatim>\<open>country\<close> the value \<^verbatim>\<open>True\<close>.
\<close>

lemma get_returns_form:
  assumes "registration_extension_form env = None"
    and "RegistrationView_init cfg = Inr self"
    and "\<forall>kwargs prov. running_pipeline request = Some kwargs
              \<and> current_provider request = Some prov
              \<longrightarrow> get_register_form_data prov kwargs ''country'' \<noteq> Some (JBool True)"
  shows "\<exists>resp. RegistrationView_get env self request = Inr resp"
proof -
  have "set (field_order self) \<subseteq> set (DEFAULT_FIELDS @ EXTRA_FIELDS)"
    using init_field_order [OF assms(2)] by simp
  from add_ordered_fields_returns [OF this initial_form_country_default [OF assms(3)]]
  obtain fd where "add_ordered_fields env self (field_order self) (initial_form env request) = Inr fd"
    by blast
  with assms(1) have "registration_form env self request = Inr fd"
    by (simp add: registration_form_def initial_form_def Let_def)
  then show ?thesis by (simp add: RegistrationView_get_def)
qed

text \<open>The sample request, run through the constructor and \<^verbatim>\<open>get\<close>.\<close>

lemma init_default: "RegistrationView_init default_cfg = Inr default_view"
  by (simp add: RegistrationView_init_def default_cfg_def default_view_def
      configured_extra_fields_def configured_field_order_def dict_get_def
      EXTRA_FIELDS_def DEFAULT_FIELDS_def)

lemma get_sample: "RegistrationView_get tpa_env default_view tpa_request = Inr sample_response"
  by (simp add: RegistrationView_get_def registration_form_def
      apply_third_party_auth_overrides_def tpa_env_def tpa_request_def sample_provider_def
      email_only_data_def sample_kwargs_def default_view_def DEFAULT_FIELDS_def EXTRA_FIELDS_def
      override_field_properties_def update_overrides_def no_overrides_def add_field_def
      apply_overrides_def field_kwargs_def FormDescription_def field_handlers_def
      is_field_visible_def is_field_required_def add_email_field_def add_name_field_def
      add_username_field_def add_password_field_def add_honor_code_field_def
      HttpResponse_def to_json_def Let_def sample_response_def sample_fields_def
      sample_accounts_def sample_marketing_link_def sample_reverse_def
      lower_def lower_char_def ascii_uppercase_def ascii_lowercase_def)

text \<open>
  Claim C1, as stated: whatever the configuration, the form that \<^verbatim>\<open>get\<close> returns has
  every default field marked required. It does not: in a running third-party-auth pipeline
  the password entry comes out with \<^verbatim>\<open>required\<close> false (the second list gives the
  \<^verbatim>\<open>required\<close> flags of the entries named in the first).
\<close>

theorem C1_password_not_required_counterexample:
  "RegistrationView_init default_cfg = Inr default_view
   \<and> RegistrationView_get tpa_env default_view tpa_request = Inr sample_response
   \<and> content sample_response = JsonForm ''post'' ''/user_api/v1/registration'' sample_fields
   \<and> map name sample_fields =
       [''social_auth_provider'', ''email'', ''name'', ''username'', ''password'', ''honor_code'']
   \<and> map required sample_fields = [False, True, True, True, False, True]"
  using init_default get_sample
  by (simp add: sample_response_def HttpResponse_def sample_fields_def)

text \<open>
  Claim C1, amended: for every configuration with which the constructor succeeds, with or
  without an extension form, the form that \<^verbatim>\<open>get\<close> returns has an entry for each of
  email, name, username and password; the entries for email, name and username are marked
  required, and so is the one for password unless third-party auth is enabled and the
  request carries a running pipeline with a registered provider, when it is marked not
  required.
\<close>

theorem C1_default_fields_present:
  assumes "RegistrationView_init cfg = Inr self"
    and "RegistrationView_get env self request = Inr resp"
  shows "\<exists>m u fs. content resp = JsonForm m u fs
           \<and> (\<forall>n \<in> set DEFAULT_FIELDS. \<exists>f \<in> set fs. name f = n
                 \<and> (required f \<longleftrightarrow>
                      \<not> (n = ''password'' \<and> third_party_auth_is_enabled env
                         \<and> running_pipeline request \<noteq> None \<and> current_provider request \<noteq> None)))"
proof -
  from get_form [OF assms(2)] obtain fd where
    fd: "registration_form env self request = Inr fd"
    and resp: "content resp = JsonForm (http_method fd) (submit_url fd) (form_fields fd)"
    by (auto simp: HttpResponse_def)
  have "\<forall>n \<in> set DEFAULT_FIELDS. \<exists>f \<in> set (form_fields fd). name f = n
                 \<and> (required f \<longleftrightarrow>
                      \<not> (n = ''password'' \<and> third_party_auth_is_enabled env
                         \<and> running_pipeline request \<noteq> None \<and> current_provider request \<noteq> None))"
  proof
    fix n assume "n \<in> set DEFAULT_FIELDS"
    with registration_form_spec(2) [OF fd init_field_order [OF assms(1)]]
    have "present n True (initial_form env request) fd" by blast
    then show "\<exists>f \<in> set (form_fields fd). name f = n
                 \<and> (required f \<longleftrightarrow>
                      \<not> (n = ''password'' \<and> third_party_auth_is_enabled env
                         \<and> running_pipeline request \<noteq> None \<and> current_provider request \<noteq> None))"
      unfolding present_def initial_form_required by (auto split: if_splits)
  qed
  with resp show ?thesis by blast
qed

theorem C1_default_fields_present_witness:
  "RegistrationView_init default_cfg = Inr default_view
   \<and> RegistrationView_get tpa_env default_view tpa_request = Inr sample_response
   \<and> (\<exists>m u fs. content sample_response = JsonForm m u fs
         \<and> (\<forall>n \<in> set DEFAULT_FIELDS. \<exists>f \<in> set fs. name f = n
               \<and> (required f \<longleftrightarrow>
                    \<not> (n = ''password'' \<and> third_party_auth_is_enabled tpa_env
                       \<and> running_pipeline tpa_request \<noteq> None
                       \<and> current_provider tpa_request \<noteq> None))))"
  using init_default get_sample C1_default_fields_present [OF init_default get_sample]
  by blast

text \<open>
  Claim C3. With a running pipeline, a provider that skips the registration form and an
  enterprise context, every field but the terms-of-service or honor-code checkbox is to be
  hidden; the comment at lines 949-951 of \<^verbatim>\<open>views.py\<close> says the same ("we need to hide all
  fields except for terms of service"). The loop at lines 955-970 hides a field only when
  the provider gave a truthy value for it. Here the provider gives only the email: the
  entries for name and username keep the type \<^verbatim>\<open>text\<close>, with their labels and instructions
  (the second list gives the types of the entries named in the first).
\<close>

theorem C3_unsupplied_fields_visible:
  "third_party_auth_is_enabled tpa_env
   \<and> running_pipeline tpa_request = Some sample_kwargs
   \<and> current_provider tpa_request = Some sample_provider
   \<and> skip_registration_form sample_provider
   \<and> enterprise_customer tpa_request
   \<and> get_register_form_data sample_provider sample_kwargs ''name'' = None
   \<and> get_register_form_data sample_provider sample_kwargs ''username'' = None
   \<and> RegistrationView_get tpa_env default_view tpa_request = Inr sample_response
   \<and> content sample_response = JsonForm ''post'' ''/user_api/v1/registration'' sample_fields
   \<and> map name sample_fields =
       [''social_auth_provider'', ''email'', ''name'', ''username'', ''password'', ''honor_code'']
   \<and> map field_type sample_fields =
       [''hidden'', ''hidden'', ''text'', ''text'', ''hidden'', ''checkbox'']
   \<and> map label sample_fields =
       ['''', '''', ''Full Name'', ''Public Username'', '''',
        ''I agree to the edX Terms of Service and Honor Code'']"
  using get_sample
  by (simp add: tpa_env_def tpa_request_def sample_provider_def email_only_data_def
      sample_response_def HttpResponse_def sample_fields_def)

text \<open>
  Claim C7. When third-party auth is enabled and the request carries a running pipeline
  with a registered provider, the form that \<^verbatim>\<open>get\<close> returns has a password entry, and
  every password entry has the type \<^verbatim>\<open>hidden\<close>, the empty default, \<^verbatim>\<open>required\<close> false
  and empty label, instructions and restrictions.
\<close>

theorem C7_password_hidden:
  assumes "third_party_auth_is_enabled env" and "running_pipeline request = Some kwargs"
    and "current_provider request = Some prov"
    and "RegistrationView_init cfg = Inr self"
    and "RegistrationView_get env self request = Inr resp"
  shows "\<exists>m u fs. content resp = JsonForm m u fs
           \<and> (\<exists>f \<in> set fs. name f = ''password'')
           \<and> (\<forall>f \<in> set fs. name f = ''password'' \<longrightarrow>
                 field_type f = ''hidden'' \<and> defaultValue f = JStr '''' \<and> required f = False
                 \<and> label f = '''' \<and> instructions f = '''' \<and> restrictions f = [])"
proof -
  from get_form [OF assms(5)] obtain fd where
    fd: "registration_form env self request = Inr fd"
    and resp: "content resp = JsonForm (http_method fd) (submit_url fd) (form_fields fd)"
    by (auto simp: HttpResponse_def)
  have "''password'' \<in> set DEFAULT_FIELDS" by (simp add: DEFAULT_FIELDS_def)
  with registration_form_spec(2) [OF fd init_field_order [OF assms(4)]]
  have p: "\<exists>f \<in> set (form_fields fd). name f = ''password''"
    unfolding present_def by blast
  have "\<forall>f \<in> set (form_fields fd). name f = ''password'' \<longrightarrow>
                 field_type f = ''hidden'' \<and> defaultValue f = JStr '''' \<and> required f = False
                 \<and> label f = '''' \<and> instructions f = '''' \<and> restrictions f = []"
  proof (intro ballI impI)
    fix f assume f: "f \<in> set (form_fields fd)" and n: "name f = ''password''"
    from form_conforms [OF fd f] n initial_form_active(1) [OF assms(1-3)]
    have "conforms password_override f" by simp
    then show "field_type f = ''hidden'' \<and> defaultValue f = JStr '''' \<and> required f = False
                 \<and> label f = '''' \<and> instructions f = '''' \<and> restrictions f = []"
      using n by (simp add: conforms_def password_override_def)
  qed
  with p resp show ?thesis by blast
qed

theorem C7_password_hidden_witness:
  "third_party_auth_is_enabled tpa_env
   \<and> running_pipeline tpa_request = Some sample_kwargs
   \<and> current_provider tpa_request = Some sample_provider
   \<and> RegistrationView_init default_cfg = Inr default_view
   \<and> RegistrationView_get tpa_env default_view tpa_request = Inr sample_response
   \<and> (\<exists>m u fs. content sample_response = JsonForm m u fs
         \<and> (\<exists>f \<in> set fs. name f = ''password'')
         \<and> (\<forall>f \<in> set fs. name f = ''password'' \<longrightarrow>
               field_type f = ''hidden'' \<and> defaultValue f = JStr '''' \<and> required f = False
               \<and> label f = '''' \<and> instructions f = '''' \<and> restrictions f = []))"
proof -
  have a: "third_party_auth_is_enabled tpa_env"
    by (simp add: tpa_env_def)
  have b: "running_pipeline tpa_request = Some sample_kwargs"
    by (simp add: tpa_request_def)
  have c: "current_provider tpa_request = Some sample_provider"
    by (simp add: tpa_request_def)
  from C7_password_hidden [OF a b c init_default get_sample] a b c init_default get_sample
  show ?thesis by blast
qed

text \<open>
  Claim C9. When the mapping that the constructor reads has no key \<^verbatim>\<open>honor_code\<close>, the
  constructor sets it to "required", and every form that \<^verbatim>\<open>get\<close> returns for the view has
  an \<^verbatim>\<open>honor_code\<close> entry marked required.
\<close>

theorem C9_honor_code_required_by_default:
  assumes "configured_extra_fields cfg ''honor_code'' = None"
    and "RegistrationView_init cfg = Inr self"
  shows "extra_fields_setting self ''honor_code'' = Some ''required''
         \<and> (\<forall>env request resp. RegistrationView_get env self request = Inr resp \<longrightarrow>
               (\<exists>m u fs. content resp = JsonForm m u fs
                  \<and> (\<exists>f \<in> set fs. name f = ''honor_code'' \<and> required f)))"
proof -
  have s: "extra_fields_setting self ''honor_code'' = Some ''required''"
    using init_honor_code [OF assms(2)] assms(1) by (simp add: dict_get_def)
  then have v: "is_field_visible self ''honor_code''" "is_field_required self ''honor_code''"
    by (simp_all add: is_field_visible_def is_field_required_def)
  have h: "''honor_code'' \<in> set EXTRA_FIELDS" by (simp add: EXTRA_FIELDS_def)
  have "\<exists>m u fs. content resp = JsonForm m u fs
          \<and> (\<exists>f \<in> set fs. name f = ''honor_code'' \<and> required f)"
    if g: "RegistrationView_get env self request = Inr resp" for env request resp
  proof -
    from get_form [OF g] obtain fd where
      fd: "registration_form env self request = Inr fd"
      and resp: "content resp = JsonForm (http_method fd) (submit_url fd) (form_fields fd)"
      by (auto simp: HttpResponse_def)
    from registration_form_spec(3) [OF fd init_field_order [OF assms(2)]] h v
    have "present ''honor_code'' True (initial_form env request) fd" by auto
    then have "\<exists>f \<in> set (form_fields fd). name f = ''honor_code'' \<and> required f"
      unfolding present_def initial_form_required by simp
    with resp show ?thesis by blast
  qed
  with s show ?thesis by blast
qed

theorem C9_honor_code_required_by_default_witness:
  "configured_extra_fields default_cfg ''honor_code'' = None
   \<and> RegistrationView_init default_cfg = Inr default_view
   \<and> extra_fields_setting default_view ''honor_code'' = Some ''required''
   \<and> RegistrationView_get tpa_env default_view tpa_request = Inr sample_response
   \<and> (\<exists>m u fs. content sample_response = JsonForm m u fs
         \<and> (\<exists>f \<in> set fs. name f = ''honor_code'' \<and> required f))"
proof -
  have a: "configured_extra_fields default_cfg ''honor_code'' = None"
    by (simp add: configured_extra_fields_def default_cfg_def)
  from C9_honor_code_required_by_default [OF a init_default] a init_default get_sample
  show ?thesis by blast
qed

section \<open>Properties of the registration submission\<close>

lemma format_field_mentions:
  "sublist val (format_field key val (pre @ ''{'' @ key @ ''}'' @ post))"
proof (induction pre)
  case Nil
  then show ?case by simp
next
  case (Cons c pre)
  then show ?case by (auto simp: sublist_Cons_right)
qed

lemma conflict_errors_acc:
  "set fs \<subseteq> dom msgs \<Longrightarrow>
   \<exists>errs'. conflict_errors msgs errs fs = Inr errs'
     \<and> (\<forall>f. errs' f = (if f \<in> set fs then map_option (\<lambda>m. [UserMessage m]) (msgs f) else errs f))"
proof (induction fs arbitrary: errs)
  case Nil
  then show ?case by simp
next
  case (Cons a fs)
  then obtain m where m: "msgs a = Some m" by auto
  from Cons.prems have "set fs \<subseteq> dom msgs" by simp
  from Cons.IH [OF this, of "errs(a \<mapsto> [UserMessage m])"]
  obtain errs' where e: "conflict_errors msgs (errs(a \<mapsto> [UserMessage m])) fs = Inr errs'"
    "\<forall>f. errs' f = (if f \<in> set fs then map_option (\<lambda>m. [UserMessage m]) (msgs f)
                    else (errs(a \<mapsto> [UserMessage m])) f)"
    by blast
  show ?case using m e by auto
qed

text \<open>
  Claim C4, as stated: whenever the data holds \<^verbatim>\<open>honor_code\<close> and no
  \<^verbatim>\<open>terms_of_service\<close>, account creation is called with \<^verbatim>\<open>terms_of_service\<close> set to the
  honor code value, also for an empty value. It is not: with \<^verbatim>\<open>honor_code\<close> the empty
  string the data reaches \<^verbatim>\<open>create_account_with_params\<close> unchanged, without
  \<^verbatim>\<open>terms_of_service\<close>.
\<close>

theorem C4_empty_honor_code_counterexample:
  "empty_honor_code_data ''honor_code'' = Some ''''
   \<and> empty_honor_code_data ''terms_of_service'' = None
   \<and> no_conflicts (empty_honor_code_data ''username'') (empty_honor_code_data ''email'') = []
   \<and> snd (RegistrationView_post sample_accounts no_conflicts create_ok empty_honor_code_data)
       = [empty_honor_code_data]"
  by (simp add: RegistrationView_post_def Let_def empty_honor_code_data_def no_conflicts_def)

text \<open>
  Claim C4, amended: when the conflict check finds nothing and the data holds a non-empty
  \<^verbatim>\<open>honor_code\<close> value and no \<^verbatim>\<open>terms_of_service\<close>, \<^verbatim>\<open>create_account_with_params\<close> is
  called once, with the data in which \<^verbatim>\<open>terms_of_service\<close> is that value.
\<close>

theorem C4_honor_code_shim:
  assumes "check_account_exists (request_POST ''username'') (request_POST ''email'') = []"
    and "request_POST ''honor_code'' = Some honor_code" and "honor_code \<noteq> []"
    and "request_POST ''terms_of_service'' = None"
  shows "snd (RegistrationView_post acc check_account_exists create_account_with_params request_POST)
           = [request_POST(''terms_of_service'' \<mapsto> honor_code)]"
  using assms by (simp add: RegistrationView_post_def Let_def)

theorem C4_honor_code_shim_witness:
  "no_conflicts (honor_code_data ''username'') (honor_code_data ''email'') = []
   \<and> honor_code_data ''honor_code'' = Some ''true''
   \<and> ''true'' \<noteq> []
   \<and> honor_code_data ''terms_of_service'' = None
   \<and> snd (RegistrationView_post sample_accounts no_conflicts create_ok honor_code_data)
       = [honor_code_data(''terms_of_service'' \<mapsto> ''true'')]"
proof -
  have a: "no_conflicts (honor_code_data ''username'') (honor_code_data ''email'') = []"
    by (simp add: no_conflicts_def)
  have b: "honor_code_data ''honor_code'' = Some ''true''"
    by (simp add: honor_code_data_def)
  have c: "''true'' \<noteq> []"
    by simp
  have d: "honor_code_data ''terms_of_service'' = None"
    by (simp add: honor_code_data_def)
  show ?thesis
    using a b c d
      C4_honor_code_shim [of no_conflicts honor_code_data "''true''" sample_accounts create_ok]
    by blast
qed

text \<open>
  Claim C5 says that a field-keyed \<^verbatim>\<open>ValidationError\<close> gives HTTP 400 with only the first
  message of each field, as the comment at line 364 does. The code answers 400 with every
  message of the field: here both messages for \<^verbatim>\<open>username\<close>.
\<close>

theorem C5_all_messages_returned:
  "RegistrationView_post sample_accounts no_conflicts create_invalid honor_code_data =
     (Inr (JsonResponse
        (JsonErrors [''username'' \<mapsto>
           [UserMessage ''Username is too short.'', UserMessage ''Username is not valid.'']]) 400),
      [honor_code_data(''terms_of_service'' \<mapsto> ''true'')])"
  by (simp add: RegistrationView_post_def Let_def honor_code_data_def no_conflicts_def
      create_invalid_def NON_FIELD_ERRORS_def JsonResponse_def HttpResponse_def fun_eq_iff)

text \<open>
  Claim C6. When \<^verbatim>\<open>check_account_exists\<close> reports a conflict on the email (its result
  naming only \<^verbatim>\<open>email\<close> and \<^verbatim>\<open>username\<close>), the answer is HTTP 409, account creation is
  not called, and the JSON body has under \<^verbatim>\<open>email\<close> the one message
  \<^verbatim>\<open>EMAIL_CONFLICT_MSG.format(email_address=email)\<close>, which contains the address wherever
  the template has the replacement field; the body has the analogous entry under
  \<^verbatim>\<open>username\<close> exactly when the username conflicts too.
\<close>

theorem C6_email_conflict:
  assumes conf: "check_account_exists (request_POST ''username'') (request_POST ''email'') = conflicts"
    and em: "''email'' \<in> set conflicts"
    and sub: "set conflicts \<subseteq> {''email'', ''username''}"
  shows "\<exists>errors.
           RegistrationView_post acc check_account_exists create_account_with_params request_POST
             = (Inr (JsonResponse (JsonErrors errors) 409), [])
           \<and> status (JsonResponse (JsonErrors errors) 409) = 409
           \<and> errors ''email'' =
               Some [UserMessage (format_field ''email_address'' (py_str (request_POST ''email''))
                                    (EMAIL_CONFLICT_MSG acc))]
           \<and> (\<forall>pre post. EMAIL_CONFLICT_MSG acc = pre @ ''{email_address}'' @ post \<longrightarrow>
                 sublist (py_str (request_POST ''email''))
                   (format_field ''email_address'' (py_str (request_POST ''email''))
                      (EMAIL_CONFLICT_MSG acc)))
           \<and> (''username'' \<in> set conflicts \<longrightarrow>
                 errors ''username'' =
                   Some [UserMessage (format_field ''username'' (py_str (request_POST ''username''))
                                        (USERNAME_CONFLICT_MSG acc))])
           \<and> (''username'' \<notin> set conflicts \<longrightarrow> errors ''username'' = None)"
proof -
  let ?msgs = "[''email'' \<mapsto> format_field ''email_address'' (py_str (request_POST ''email''))
                   (EMAIL_CONFLICT_MSG acc),
                ''username'' \<mapsto> format_field ''username'' (py_str (request_POST ''username''))
                   (USERNAME_CONFLICT_MSG acc)]"
  have "set conflicts \<subseteq> dom ?msgs" using sub by auto
  from conflict_errors_acc [OF this, of Map.empty]
  obtain errs where e: "conflict_errors ?msgs Map.empty conflicts = Inr errs"
    and v: "\<And>f. errs f = (if f \<in> set conflicts then map_option (\<lambda>m. [UserMessage m]) (?msgs f) else None)"
    by auto
  have ne: "conflicts \<noteq> []" using em by auto
  have post: "RegistrationView_post acc check_account_exists create_account_with_params request_POST
             = (Inr (JsonResponse (JsonErrors errs) 409), [])"
    using conf ne e by (simp add: RegistrationView_post_def Let_def)
  have m: "\<forall>pre post. EMAIL_CONFLICT_MSG acc = pre @ ''{email_address}'' @ post \<longrightarrow>
                 sublist (py_str (request_POST ''email''))
                   (format_field ''email_address'' (py_str (request_POST ''email''))
                      (EMAIL_CONFLICT_MSG acc))"
    using format_field_mentions [of _ "''email_address''"] by auto
  show ?thesis
    apply (rule exI [of _ errs])
    using post m v em by (simp add: JsonResponse_def HttpResponse_def)
qed

theorem C6_email_conflict_witness:
  "bob_exists (bob_data ''username'') (bob_data ''email'') = [''email'']
   \<and> ''email'' \<in> set [''email'']
   \<and> set [''email''] \<subseteq> {''email'', ''username''}
   \<and> (\<exists>errors.
         RegistrationView_post sample_accounts bob_exists create_ok bob_data
           = (Inr (JsonResponse (JsonErrors errors) 409), [])
         \<and> errors ''email'' =
             Some [UserMessage ''It looks like bob@example.com belongs to an existing account.'']
         \<and> errors ''username'' = None)"
proof -
  have a: "bob_exists (bob_data ''username'') (bob_data ''email'') = [''email'']"
    by (simp add: bob_exists_def bob_data_def)
  have b: "''email'' \<in> set [''email'']"
    by simp
  have c: "set [''email''] \<subseteq> {''email'', ''username''}"
    by simp
  have f: "format_field ''email_address'' (py_str (bob_data ''email''))
             (EMAIL_CONFLICT_MSG sample_accounts)
           = ''It looks like bob@example.com belongs to an existing account.''"
    by (simp add: bob_data_def py_str_def sample_accounts_def)
  from C6_email_conflict [of bob_exists bob_data "[''email'']" sample_accounts create_ok, OF a b c]
  obtain errors where
    r: "RegistrationView_post sample_accounts bob_exists create_ok bob_data
          = (Inr (JsonResponse (JsonErrors errors) 409), [])"
       "errors ''email'' =
          Some [UserMessage (format_field ''email_address'' (py_str (bob_data ''email''))
                               (EMAIL_CONFLICT_MSG sample_accounts))]"
       "''username'' \<notin> set [''email''] \<longrightarrow> errors ''username'' = None"
    by blast
  have "errors ''username'' = None" using r(3) by simp
  with a b c r(1) r(2) f show ?thesis by auto
qed

section \<open>Properties of the email opt-in endpoint\<close>

lemma lower_true_examples:
  "lower ''true'' = ''true''" "lower ''True'' = ''true''" "lower ''TRUE'' = ''true''"
  "lower ''1'' \<noteq> ''true''" "lower ''yes'' \<noteq> ''true''" "lower ''TRUE '' \<noteq> ''true''"
  by (simp_all add: lower_def lower_char_def ascii_uppercase_def ascii_lowercase_def)

text \<open>A request with both parameters passes the decorator: the method body answers it.\<close>

lemma post_runs_body:
  assumes "data request ''course_id'' = Some cid" and "data request ''email_opt_in'' = Some s"
  shows "UpdateEmailOptInPreference_post missing_message course_org update_opt_in request store
           = UpdateEmailOptInPreference_post_body course_org update_opt_in request store"
  using assms by (simp add: UpdateEmailOptInPreference_post_def require_post_params_def)

text \<open>
  A request that lacks one of the two parameters is answered with HTTP 400 by the
  decorator, and the store is left as it was.
\<close>

lemma post_missing_parameter:
  assumes "data request ''course_id'' = None \<or> data request ''email_opt_in'' = None"
  shows "\<exists>msg. UpdateEmailOptInPreference_post missing_message course_org update_opt_in
                 request store
               = (Inr (HttpResponseBadRequest msg), store)"
  using assms
  by (auto simp: UpdateEmailOptInPreference_post_def require_post_params_def Let_def)

text \<open>
  An unparsable course id of ASCII characters: the answer is HTTP 400 with a plain-text
  body that names the course id, and the store is left as it was.
\<close>

lemma unparsable_ascii_course_id:
  assumes "data request ''course_id'' = Some cid" and "data request ''email_opt_in'' = Some s"
    and "course_org cid = None" and "is_ascii cid"
  shows "UpdateEmailOptInPreference_post missing_message course_org update_opt_in request store =
           (Inr (HttpResponse 400
                   (Text (''No course '' @ [CHR 0x27] @ cid @ [CHR 0x27] @ '' found''))
                   ''text/plain''),
            store)"
  using assms
  by (simp add: post_runs_body [OF assms(1,2)] UpdateEmailOptInPreference_post_body_def)

text \<open>
  Claim C8. When the \<^verbatim>\<open>course_id\<close> parameter cannot be parsed as a course locator, the
  endpoint is to answer HTTP 400 with a plain-text body that names the course id, without
  calling \<^verbatim>\<open>update_email_opt_in\<close>; the \<^verbatim>\<open>except InvalidKeyError\<close> branch at lines 1135-1140
  builds that response. It formats the byte-string template
  \<^verbatim>\<open>"No course '{course_id}' found"\<close> with the unicode course id, so for a course id with a
  character outside ASCII the branch raises \<^verbatim>\<open>UnicodeEncodeError\<close> and no response is
  returned. Here the course id is \<^verbatim>\<open>caf\<close> followed by the code point 0xE9 (e with acute
  accent).
\<close>

theorem C8_non_ascii_course_id_raises:
  "data (sample_optin_request (''caf'' @ [CHR 0xE9]) ''true'') ''course_id''
     = Some (''caf'' @ [CHR 0xE9])
   \<and> data (sample_optin_request (''caf'' @ [CHR 0xE9]) ''true'') ''email_opt_in'' = Some ''true''
   \<and> sample_course_org (''caf'' @ [CHR 0xE9]) = None
   \<and> UpdateEmailOptInPreference_post sample_missing_message sample_course_org
        update_email_opt_in (sample_optin_request (''caf'' @ [CHR 0xE9]) ''true'') sample_prefs
       = (Inl UnicodeEncodeError, sample_prefs)"
  by (simp add: UpdateEmailOptInPreference_post_def require_post_params_def
      UpdateEmailOptInPreference_post_body_def sample_optin_request_def sample_course_org_def
      is_ascii_def)

text \<open>
  Claim C10. With a parsable \<^verbatim>\<open>course_id\<close>, the endpoint answers HTTP 200 and calls
  \<^verbatim>\<open>update_email_opt_in\<close> once, for the user and the organization of the course, with the
  boolean that is True exactly when the lowercased \<^verbatim>\<open>email_opt_in\<close> parameter is the
  string "true"; with the spec's upsert that boolean is the value stored. "True" and "TRUE"
  give True; "1", "yes" and "TRUE " with a trailing blank give False.
\<close>

theorem C10_opt_in_only_true:
  assumes "data request ''course_id'' = Some cid" and "course_org cid = Some org"
    and "data request ''email_opt_in'' = Some s"
  shows "UpdateEmailOptInPreference_post missing_message course_org update_opt_in request store =
           (Inr (HttpResponse 200 NoContent ''text/html; charset=utf-8''),
            update_opt_in store (user request) org (lower s = ''true''))
         \<and> status (HttpResponse 200 NoContent ''text/html; charset=utf-8'') = 200
         \<and> snd (UpdateEmailOptInPreference_post missing_message course_org update_email_opt_in
                  request prefs)
             (user request, org) = Some (lower s = ''true'')
         \<and> lower ''True'' = ''true'' \<and> lower ''TRUE'' = ''true''
         \<and> lower ''1'' \<noteq> ''true'' \<and> lower ''yes'' \<noteq> ''true'' \<and> lower ''TRUE '' \<noteq> ''true''"
  using assms lower_true_examples
  by (simp add: post_runs_body [OF assms(1,3)] UpdateEmailOptInPreference_post_body_def
      update_email_opt_in_def HttpResponse_def)

theorem C10_opt_in_only_true_witness:
  "data (sample_optin_request ''course-v1:edX+DemoX+2017'' ''TRUE '') ''course_id''
     = Some ''course-v1:edX+DemoX+2017''
   \<and> sample_course_org ''course-v1:edX+DemoX+2017'' = Some ''edX''
   \<and> data (sample_optin_request ''course-v1:edX+DemoX+2017'' ''TRUE '') ''email_opt_in''
     = Some ''TRUE ''
   \<and> fst (UpdateEmailOptInPreference_post sample_missing_message sample_course_org
        update_email_opt_in
        (sample_optin_request ''course-v1:edX+DemoX+2017'' ''TRUE '') sample_prefs)
     = Inr (HttpResponse 200 NoContent ''text/html; charset=utf-8'')
   \<and> sample_prefs (''alice'', ''edX'') = Some True
   \<and> snd (UpdateEmailOptInPreference_post sample_missing_message sample_course_org
        update_email_opt_in
        (sample_optin_request ''course-v1:edX+DemoX+2017'' ''TRUE '') sample_prefs)
       (''alice'', ''edX'') = Some False"
proof -
  let ?r = "sample_optin_request ''course-v1:edX+DemoX+2017'' ''TRUE ''"
  have a: "data ?r ''course_id'' = Some ''course-v1:edX+DemoX+2017''"
    by (simp add: sample_optin_request_def)
  have b: "sample_course_org ''course-v1:edX+DemoX+2017'' = Some ''edX''"
    by (simp add: sample_course_org_def)
  have c: "data ?r ''email_opt_in'' = Some ''TRUE ''"
    by (simp add: sample_optin_request_def)
  have u: "user ?r = ''alice''"
    by (simp add: sample_optin_request_def)
  have p: "sample_prefs (''alice'', ''edX'') = Some True"
    by (simp add: sample_prefs_def)
  from a b c
    C10_opt_in_only_true [of ?r "''course-v1:edX+DemoX+2017''" sample_course_org "''edX''"
      "''TRUE ''" sample_missing_message update_email_opt_in sample_prefs sample_prefs]
  have r: "UpdateEmailOptInPreference_post sample_missing_message sample_course_org
             update_email_opt_in ?r sample_prefs
             = (Inr (HttpResponse 200 NoContent ''text/html; charset=utf-8''),
                update_email_opt_in sample_prefs (user ?r) ''edX'' (lower ''TRUE '' = ''true''))"
    and s: "snd (UpdateEmailOptInPreference_post sample_missing_message sample_course_org
                  update_email_opt_in ?r sample_prefs) (user ?r, ''edX'')
              = Some (lower ''TRUE '' = ''true'')"
    and l: "lower ''TRUE '' \<noteq> ''true''"
    by blast+
  from r have f: "fst (UpdateEmailOptInPreference_post sample_missing_message sample_course_org
                  update_email_opt_in ?r sample_prefs)
                = Inr (HttpResponse 200 NoContent ''text/html; charset=utf-8'')"
    by simp
  from s l u have "snd (UpdateEmailOptInPreference_post sample_missing_message sample_course_org
                  update_email_opt_in ?r sample_prefs) (''alice'', ''edX'') = Some False"
    by simp
  with a b c f p show ?thesis by blast
qed

end
